theory Spec2Isabelle
  imports Main "HOL-Library.Sublist" "HOL-Library.AList" "HOL-Library.Word"
begin

unbundle bit_operations_syntax

section \<open>The dynamic inventory script \<open>ansible/inventory.py\<close>\<close>

text \<open>
  The script reads the JSON context file \<^verbatim>\<open>/tmp/dockflow_context.json\<close>, writes the SSH
  private key it finds there to \<^verbatim>\<open>/tmp/dockflow_key\<close> and prints an Ansible inventory.
  This theory embeds its three functions \<^verbatim>\<open>write_ssh_key\<close>, \<^verbatim>\<open>get_inventory\<close> and
  \<^verbatim>\<open>main\<close>, with the file system and the two output streams as an explicit state and
  every exception as a value.
\<close>

subsection \<open>Python strings\<close>

text \<open>
  A Python \<^verbatim>\<open>str\<close> is a sequence of Unicode code points; a code point is a natural
  number here, so that \<^verbatim>\<open>str.strip\<close> sees the whitespace of the whole code space and not
  only of ASCII. \<open>lit\<close> turns an ASCII literal of the source into its code points.
\<close>

type_synonym pystr = "nat list"

definition lit :: "string \<Rightarrow> pystr" where
  "lit s = map of_char s"

text \<open>
  The three string literals of the normalisation in \<^verbatim>\<open>write_ssh_key\<close>:
  \<^verbatim>\<open>'\\n'\<close> (a backslash and the letter n), \<^verbatim>\<open>'\n'\<close> (a line feed) and \<^verbatim>\<open>'\r\n'\<close>
  (a carriage return and a line feed).
\<close>

abbreviation LF :: nat where "LF \<equiv> 10"
abbreviation CR :: nat where "CR \<equiv> 13"
abbreviation BACKSLASH_N :: pystr where "BACKSLASH_N \<equiv> [92, 110]"
abbreviation NEWLINE :: pystr where "NEWLINE \<equiv> [LF]"
abbreviation CRLF :: pystr where "CRLF \<equiv> [CR, LF]"

text \<open>
  \<^verbatim>\<open>str.replace(old, new)\<close>: the occurrences of \<open>old\<close> are found from the left and do
  not overlap; an empty \<open>old\<close> matches before every character and at the end.
\<close>

function str_replace :: "pystr \<Rightarrow> pystr \<Rightarrow> pystr \<Rightarrow> pystr" where
  "str_replace old new [] = (if old = [] then new else [])"
| "str_replace old new (c # cs) =
     (if old = [] then new @ c # str_replace old new cs
      else if prefix old (c # cs)
           then new @ str_replace old new (drop (length old) (c # cs))
           else c # str_replace old new cs)"
  by pat_completeness auto
termination
  by (relation "measure (\<lambda>(old, new, s). length s)") auto

text \<open>
  \<^verbatim>\<open>str.isspace\<close> on one code point, as CPython's \<^verbatim>\<open>_PyUnicode_IsWhitespace\<close> decides it,
  and \<^verbatim>\<open>str.strip()\<close> without argument, which drops the whitespace at both ends.
\<close>

definition isspace :: "nat \<Rightarrow> bool" where
  "isspace c \<longleftrightarrow>
     (9 \<le> c \<and> c \<le> 13) \<or> (28 \<le> c \<and> c \<le> 32) \<or> c = 133 \<or> c = 160 \<or> c = 5760 \<or>
     (8192 \<le> c \<and> c \<le> 8202) \<or> c = 8232 \<or> c = 8233 \<or> c = 8239 \<or> c = 8287 \<or> c = 12288"

definition str_strip :: "pystr \<Rightarrow> pystr" where
  "str_strip s = rev (dropWhile isspace (rev (dropWhile isspace s)))"

text \<open>
  The characters at which \<^verbatim>\<open>str.splitlines\<close> breaks a line: the line terminators of a
  Python string.
\<close>

definition is_line_terminator :: "nat \<Rightarrow> bool" where
  "is_line_terminator c \<longleftrightarrow>
     (10 \<le> c \<and> c \<le> 13) \<or> (28 \<le> c \<and> c \<le> 30) \<or> c = 133 \<or> c = 8232 \<or> c = 8233"

subsection \<open>JSON values\<close>

text \<open>
  What \<^verbatim>\<open>json.load\<close> returns: \<^verbatim>\<open>None\<close>, a \<^verbatim>\<open>bool\<close>, an unbounded \<^verbatim>\<open>int\<close>, a
  \<^verbatim>\<open>float\<close> (its IEEE 754 binary64 bit pattern), a \<^verbatim>\<open>str\<close>, a \<^verbatim>\<open>list\<close> or a \<^verbatim>\<open>dict\<close>.
  A dict is the list of its items in insertion order; \<open>map_of\<close> looks a key up.
\<close>

datatype json =
    JNull
  | JBool bool
  | JInt int
  | JFloat "64 word"
  | JStr pystr
  | JArr "json list"
  | JObj "(pystr \<times> json) list"

text \<open>The truth value Python gives a value in \<^verbatim>\<open>if private_key:\<close> and \<^verbatim>\<open>if password:\<close>.\<close>

fun truthy :: "json \<Rightarrow> bool" where
  "truthy JNull = False"
| "truthy (JBool b) = b"
| "truthy (JInt i) = (i \<noteq> 0)"
| "truthy (JFloat f) = (push_bit 1 f \<noteq> 0)"
| "truthy (JStr s) = (s \<noteq> [])"
| "truthy (JArr xs) = (xs \<noteq> [])"
| "truthy (JObj kvs) = (kvs \<noteq> [])"

fun type_name :: "json \<Rightarrow> pystr" where
  "type_name JNull = lit ''NoneType''"
| "type_name (JBool b) = lit ''bool''"
| "type_name (JInt i) = lit ''int''"
| "type_name (JFloat f) = lit ''float''"
| "type_name (JStr s) = lit ''str''"
| "type_name (JArr xs) = lit ''list''"
| "type_name (JObj kvs) = lit ''dict''"

subsection \<open>Exceptions\<close>

text \<open>
  The exception classes the script can meet, each with its message \<^verbatim>\<open>str(e)\<close>.
  \<open>IOError\<close> is Python 3's \<^verbatim>\<open>OSError\<close> with all its subclasses; \<open>OtherError\<close> is any class
  that is neither of the two named in the \<^verbatim>\<open>except\<close> clause of \<^verbatim>\<open>get_inventory\<close> nor an
  \<^verbatim>\<open>AttributeError\<close> (a \<^verbatim>\<open>UnicodeDecodeError\<close> of the read, for one).
\<close>

datatype exn =
    JSONDecodeError pystr
  | IOError pystr
  | AttributeError pystr
  | OtherError pystr

fun message :: "exn \<Rightarrow> pystr" where
  "message (JSONDecodeError m) = m"
| "message (IOError m) = m"
| "message (AttributeError m) = m"
| "message (OtherError m) = m"

text \<open>\<^verbatim>\<open>except (json.JSONDecodeError, IOError) as e\<close>: the classes the handler catches.\<close>

fun caught :: "exn \<Rightarrow> bool" where
  "caught (JSONDecodeError m) = True"
| "caught (IOError m) = True"
| "caught (AttributeError m) = False"
| "caught (OtherError m) = False"

definition no_attribute :: "json \<Rightarrow> pystr \<Rightarrow> exn" where
  "no_attribute v a =
     AttributeError (lit [CHR 0x27] @ type_name v @ lit [CHR 0x27] @
       lit '' object has no attribute '' @ lit [CHR 0x27] @ a @ lit [CHR 0x27])"

text \<open>
  \<^verbatim>\<open>obj.get(key, default)\<close>: only a dict has the method; on any other value the
  attribute lookup raises.
\<close>

definition dict_get :: "(pystr \<times> json) list \<Rightarrow> pystr \<Rightarrow> json \<Rightarrow> json" where
  "dict_get kvs key dflt = (case map_of kvs key of Some v \<Rightarrow> v | None \<Rightarrow> dflt)"

definition py_get :: "json \<Rightarrow> pystr \<Rightarrow> json \<Rightarrow> exn + json" where
  "py_get obj key dflt =
     (case obj of
        JObj kvs \<Rightarrow> Inr (dict_get kvs key dflt)
      | _ \<Rightarrow> Inl (no_attribute obj (lit ''get'')))"

definition sum_bind :: "exn + 'a \<Rightarrow> ('a \<Rightarrow> exn + 'b) \<Rightarrow> exn + 'b" where
  "sum_bind r f = (case r of Inl e \<Rightarrow> Inl e | Inr x \<Rightarrow> f x)"

text \<open>
  An f-string field \<^verbatim>\<open>{v}\<close>: a \<^verbatim>\<open>str\<close> is inserted as it is; any other value is
  formatted by the interpreter's \<^verbatim>\<open>str()\<close>, which is taken as the parameter \<open>py_str\<close>.
\<close>

definition format_field :: "(json \<Rightarrow> pystr) \<Rightarrow> json \<Rightarrow> pystr" where
  "format_field py_str v = (case v of JStr s \<Rightarrow> s | _ \<Rightarrow> py_str v)"

subsection \<open>The world: files, faults and output streams\<close>

text \<open>
  The context file is what the three calls on \<^verbatim>\<open>CONTEXT_FILE\<close> make of it:
  \<^verbatim>\<open>os.path.exists\<close> says no (\<open>Absent\<close>), or \<^verbatim>\<open>open\<close> and \<^verbatim>\<open>json.load\<close> raise
  (\<open>LoadRaises\<close>), or they return a value (\<open>Loaded\<close>).
\<close>

datatype ctx_state = Absent | LoadRaises exn | Loaded json

record fsfile =
  content :: pystr
  mode :: nat

text \<open>The calls made on the file system, in the order they are made.\<close>

datatype effect = Open_w pystr | Write pystr pystr | Chmod pystr nat

text \<open>
  \<open>open_fault\<close>, \<open>write_fault\<close> and \<open>chmod_fault\<close> are the exceptions the operating
  system answers the three calls of \<^verbatim>\<open>write_ssh_key\<close> with, if it does; \<open>create_mode\<close> is
  the mode a newly created file gets (\<^verbatim>\<open>0o666\<close> masked by the umask). \<open>stderr\<close> holds the
  lines printed to the error stream, \<open>stdout\<close> the documents printed by
  \<^verbatim>\<open>print(json.dumps(doc, indent=2))\<close>.
\<close>

record world =
  context_file :: ctx_state
  files :: "pystr \<rightharpoonup> fsfile"
  create_mode :: nat
  open_fault :: "exn option"
  write_fault :: "exn option"
  chmod_fault :: "exn option"
  trace :: "effect list"
  stderr :: "pystr list"
  stdout :: "json list"

type_synonym 'a io = "world \<Rightarrow> (exn + 'a) \<times> world"

definition io_return :: "'a \<Rightarrow> 'a io" where
  "io_return x w = (Inr x, w)"

definition io_lift :: "exn + 'a \<Rightarrow> 'a io" where
  "io_lift r w = (r, w)"

definition io_bind :: "'a io \<Rightarrow> ('a \<Rightarrow> 'b io) \<Rightarrow> 'b io" where
  "io_bind m f w = (case m w of (Inl e, w') \<Rightarrow> (Inl e, w') | (Inr x, w') \<Rightarrow> f x w')"

text \<open>
  \<^verbatim>\<open>open(path, 'w')\<close> creates the file or truncates it, keeping the mode of a file that
  exists; \<^verbatim>\<open>f.write(s)\<close> with the close at the end of the \<^verbatim>\<open>with\<close> block stores the
  text (on POSIX the text layer writes \<^verbatim>\<open>'\n'\<close> as it is); \<^verbatim>\<open>os.chmod\<close> sets the
  permission bits.
\<close>

definition fs_open_w :: "pystr \<Rightarrow> unit io" where
  "fs_open_w path w =
     (let w1 = w\<lparr>trace := trace w @ [Open_w path]\<rparr> in
      case open_fault w of
        Some e \<Rightarrow> (Inl e, w1)
      | None \<Rightarrow>
          (Inr (),
           w1\<lparr>files := (files w)(path \<mapsto>
                 \<lparr>content = [],
                  mode = (case files w path of Some f \<Rightarrow> mode f | None \<Rightarrow> create_mode w)\<rparr>)\<rparr>))"

definition fs_write :: "pystr \<Rightarrow> pystr \<Rightarrow> unit io" where
  "fs_write path s w =
     (let w1 = w\<lparr>trace := trace w @ [Write path s]\<rparr> in
      case write_fault w of
        Some e \<Rightarrow> (Inl e, w1)
      | None \<Rightarrow>
          (case files w path of
             None \<Rightarrow> (Inl (IOError (lit ''No such file or directory'')), w1)
           | Some f \<Rightarrow> (Inr (), w1\<lparr>files := (files w)(path \<mapsto> f\<lparr>content := s\<rparr>)\<rparr>)))"

definition os_chmod :: "pystr \<Rightarrow> nat \<Rightarrow> unit io" where
  "os_chmod path m w =
     (let w1 = w\<lparr>trace := trace w @ [Chmod path m]\<rparr> in
      case chmod_fault w of
        Some e \<Rightarrow> (Inl e, w1)
      | None \<Rightarrow>
          (case files w path of
             None \<Rightarrow> (Inl (IOError (lit ''No such file or directory'')), w1)
           | Some f \<Rightarrow> (Inr (), w1\<lparr>files := (files w)(path \<mapsto> f\<lparr>mode := m\<rparr>)\<rparr>)))"

subsection \<open>The script\<close>

definition CONTEXT_FILE :: pystr where
  "CONTEXT_FILE = lit ''/tmp/dockflow_context.json''"

definition SSH_KEY_FILE :: pystr where
  "SSH_KEY_FILE = lit ''/tmp/dockflow_key''"

definition S_IRUSR :: nat where
  "S_IRUSR = 256"

definition S_IWUSR :: nat where
  "S_IWUSR = 128"

text \<open>
  \<^verbatim>\<open>normalized_key = private_key.replace('\\n', '\n').replace('\r\n', '\n').strip() + '\n'\<close>.
  The annotation \<^verbatim>\<open>private_key: str\<close> is not checked by Python: a value of another type
  reaches the first \<^verbatim>\<open>.replace\<close> and raises there.
\<close>

definition write_ssh_key :: "json \<Rightarrow> pystr io" where
  "write_ssh_key private_key =
     (case private_key of
        JStr s \<Rightarrow>
          (let normalized_key =
                 str_strip (str_replace CRLF NEWLINE (str_replace BACKSLASH_N NEWLINE s)) @ NEWLINE
           in io_bind (fs_open_w SSH_KEY_FILE) (\<lambda>_.
              io_bind (fs_write SSH_KEY_FILE normalized_key) (\<lambda>_.
              io_bind (os_chmod SSH_KEY_FILE (S_IRUSR OR S_IWUSR)) (\<lambda>_.
              io_return SSH_KEY_FILE))))
      | _ \<Rightarrow> io_lift (Inl (no_attribute private_key (lit ''replace''))))"

definition empty_inventory :: json where
  "empty_inventory = JObj [(lit ''_meta'', JObj [(lit ''hostvars'', JObj [])])]"

definition get_inventory :: "(json \<Rightarrow> pystr) \<Rightarrow> json io" where
  "get_inventory py_str w =
     (case context_file w of
        Absent \<Rightarrow> (Inr empty_inventory, w)
      | LoadRaises e \<Rightarrow>
          (if caught e
           then (Inr empty_inventory,
                 w\<lparr>stderr := stderr w @ [lit ''Error reading context file: '' @ message e]\<rparr>)
           else (Inl e, w))
      | Loaded ctx \<Rightarrow>
         (io_bind (io_lift (sum_bind (py_get ctx (lit ''connection'') (JObj []))
                              (py_get ctx (lit ''ssh_connection'')))) (\<lambda>connection.
          io_bind (io_lift (py_get ctx (lit ''env'') (JStr (lit ''unknown'')))) (\<lambda>env.
          io_bind (io_lift (py_get ctx (lit ''server_name'') (JStr (lit ''server'')))) (\<lambda>server_name.
          io_bind (io_lift (py_get connection (lit ''private_key'') (JStr []))) (\<lambda>private_key.
          io_bind (if truthy private_key then write_ssh_key private_key
                   else io_return SSH_KEY_FILE) (\<lambda>_.
          let host_name = format_field py_str env @ lit ''-'' @ format_field py_str server_name in
          io_bind (io_lift (py_get connection (lit ''host'') (JStr []))) (\<lambda>ansible_host.
          io_bind (io_lift (py_get connection (lit ''port'') (JInt 22))) (\<lambda>ansible_port.
          io_bind (io_lift (py_get connection (lit ''user'') (JStr (lit ''root'')))) (\<lambda>ansible_user.
          let hostvars =
                [(lit ''ansible_host'', ansible_host),
                 (lit ''ansible_port'', ansible_port),
                 (lit ''ansible_user'', ansible_user),
                 (lit ''ansible_ssh_private_key_file'', JStr (lit ''/tmp/dockflow_key'')),
                 (lit ''ansible_ssh_common_args'',
                  JStr (lit ''-o StrictHostKeyChecking=no -o UserKnownHostsFile=/dev/null''))]
          in
          io_bind (io_lift (py_get connection (lit ''password'') (JStr []))) (\<lambda>password.
          let hostvars =
                (if truthy password
                 then AList.update (lit ''ansible_become_password'') password hostvars
                 else hostvars)
          in
          io_return
            (JObj [(lit ''all'', JObj [(lit ''hosts'', JArr [JStr host_name]),
                                       (lit ''vars'', JObj [])]),
                   (lit ''_meta'', JObj [(lit ''hostvars'',
                                          JObj [(host_name, JObj hostvars)])])])))))))))) w))"

definition print_json :: "json \<Rightarrow> unit io" where
  "print_json doc w = (Inr (), w\<lparr>stdout := stdout w @ [doc]\<rparr>)"

text \<open>\<open>argv\<close> is \<^verbatim>\<open>sys.argv\<close>: the script's name, then its arguments.\<close>

definition main :: "(json \<Rightarrow> pystr) \<Rightarrow> pystr list \<Rightarrow> unit io" where
  "main py_str argv =
     (if length argv = 2 \<and> argv ! 1 = lit ''--list''
      then io_bind (get_inventory py_str) print_json
      else if length argv = 3 \<and> argv ! 1 = lit ''--host''
      then io_bind (get_inventory py_str) (\<lambda>inventory.
           let host = argv ! 2 in
           io_bind (io_lift
             (sum_bind (py_get inventory (lit ''_meta'') (JObj [])) (\<lambda>meta.
              sum_bind (py_get meta (lit ''hostvars'') (JObj [])) (\<lambda>hv.
              py_get hv host (JObj []))))) print_json)
      else io_bind (get_inventory py_str) print_json)"

text \<open>
  \<^verbatim>\<open>if __name__ == '__main__': main()\<close> under the interpreter: an exception nobody caught
  ends the process with status 1 after a traceback on the error stream, of which the last
  line (the message) is kept; otherwise the status is 0.
\<close>

definition script :: "(json \<Rightarrow> pystr) \<Rightarrow> pystr list \<Rightarrow> world \<Rightarrow> nat \<times> world" where
  "script py_str argv w =
     (case main py_str argv w of
        (Inr u, w') \<Rightarrow> (0, w')
      | (Inl e, w') \<Rightarrow> (1, w'\<lparr>stderr := stderr w' @ [message e]\<rparr>))"

subsection \<open>Vocabulary of the statements and sample worlds\<close>

text \<open>
  Every carriage return of the string is followed at once by a line feed: the strings in
  which \<^verbatim>\<open>.replace('\r\n', '\n')\<close> leaves no carriage return.
\<close>

fun every_cr_before_lf :: "pystr \<Rightarrow> bool" where
  "every_cr_before_lf [] = True"
| "every_cr_before_lf [c] = (c \<noteq> CR)"
| "every_cr_before_lf (c # d # cs) = ((c \<noteq> CR \<or> d = LF) \<and> every_cr_before_lf (d # cs))"

text \<open>
  The string without its carriage returns that are followed at once by a line feed, every
  other character kept in place; and the number of the carriage returns of a string that
  are not followed at once by a line feed.
\<close>

fun delete_cr_before_lf :: "pystr \<Rightarrow> pystr" where
  "delete_cr_before_lf [] = []"
| "delete_cr_before_lf [c] = [c]"
| "delete_cr_before_lf (c # d # cs) =
     (if c = CR \<and> d = LF then delete_cr_before_lf (d # cs)
      else c # delete_cr_before_lf (d # cs))"

fun count_lone_cr :: "pystr \<Rightarrow> nat" where
  "count_lone_cr [] = 0"
| "count_lone_cr [c] = (if c = CR then 1 else 0)"
| "count_lone_cr (c # d # cs) =
     (if c = CR \<and> d \<noteq> LF then 1 else 0) + count_lone_cr (d # cs)"

text \<open>
  Names for four expressions of \<^verbatim>\<open>get_inventory\<close>: the connection object it selects, the
  host name it builds, the \<^verbatim>\<open>hostvars\<close> dict and the inventory it returns.
\<close>

definition connection_of :: "(pystr \<times> json) list \<Rightarrow> json" where
  "connection_of ctx =
     dict_get ctx (lit ''ssh_connection'') (dict_get ctx (lit ''connection'') (JObj []))"

definition host_name_of :: "(json \<Rightarrow> pystr) \<Rightarrow> (pystr \<times> json) list \<Rightarrow> pystr" where
  "host_name_of py_str ctx =
     format_field py_str (dict_get ctx (lit ''env'') (JStr (lit ''unknown''))) @ lit ''-'' @
     format_field py_str (dict_get ctx (lit ''server_name'') (JStr (lit ''server'')))"

definition hostvars_of :: "(pystr \<times> json) list \<Rightarrow> (pystr \<times> json) list" where
  "hostvars_of c =
     [(lit ''ansible_host'', dict_get c (lit ''host'') (JStr [])),
      (lit ''ansible_port'', dict_get c (lit ''port'') (JInt 22)),
      (lit ''ansible_user'', dict_get c (lit ''user'') (JStr (lit ''root''))),
      (lit ''ansible_ssh_private_key_file'', JStr (lit ''/tmp/dockflow_key'')),
      (lit ''ansible_ssh_common_args'',
       JStr (lit ''-o StrictHostKeyChecking=no -o UserKnownHostsFile=/dev/null''))] @
     (if truthy (dict_get c (lit ''password'') (JStr []))
      then [(lit ''ansible_become_password'', dict_get c (lit ''password'') (JStr []))]
      else [])"

definition inventory_of :: "pystr \<Rightarrow> (pystr \<times> json) list \<Rightarrow> json" where
  "inventory_of host_name hostvars =
     JObj [(lit ''all'', JObj [(lit ''hosts'', JArr [JStr host_name]), (lit ''vars'', JObj [])]),
           (lit ''_meta'', JObj [(lit ''hostvars'', JObj [(host_name, JObj hostvars)])])]"

text \<open>
  Two context documents: the one of the specification's end-to-end scenario, and one with
  a \<^verbatim>\<open>connection\<close> key only, a password and no private key.
\<close>

definition ctx_prod :: "(pystr \<times> json) list" where
  "ctx_prod =
     [(lit ''env'', JStr (lit ''prod'')),
      (lit ''server_name'', JStr (lit ''web1'')),
      (lit ''ssh_connection'',
       JObj [(lit ''host'', JStr (lit ''10.0.0.5'')),
             (lit ''port'', JInt 2222),
             (lit ''user'', JStr (lit ''deploy'')),
             (lit ''private_key'', JStr (lit ''KEYDATA''))])]"

definition ctx_sudo :: "(pystr \<times> json) list" where
  "ctx_sudo =
     [(lit ''connection'',
       JObj [(lit ''host'', JStr (lit ''192.168.1.7'')),
             (lit ''password'', JStr (lit ''secret''))])]"

text \<open>
  A formatter for the examples, none of which formats a value that is not a string, and
  a world without context file, without key file and without faults, in which a new file
  gets the mode \<^verbatim>\<open>0o644\<close>.
\<close>

definition py_str_sample :: "json \<Rightarrow> pystr" where
  "py_str_sample v = type_name v"

definition world0 :: world where
  "world0 = \<lparr>context_file = Absent, files = Map.empty, create_mode = 420,
     open_fault = None, write_fault = None, chmod_fault = None,
     trace = [], stderr = [], stdout = []\<rparr>"

text \<open>The two context documents, each loaded in an otherwise empty world.\<close>

definition world_prod :: world where
  "world_prod = world0\<lparr>context_file := Loaded (JObj ctx_prod)\<rparr>"

definition world_sudo :: world where
  "world_sudo = world0\<lparr>context_file := Loaded (JObj ctx_sudo)\<rparr>"

section \<open>Properties\<close>

subsection \<open>Unfolding the three functions\<close>

lemmas io_defs = io_bind_def io_return_def io_lift_def sum_bind_def
lemmas fs_defs = fs_open_w_def fs_write_def os_chmod_def

lemma write_ssh_key_JStr:
  "write_ssh_key (JStr s) w =
     (let k = str_strip (str_replace CRLF NEWLINE (str_replace BACKSLASH_N NEWLINE s)) @ NEWLINE;
          m0 = (case files w SSH_KEY_FILE of Some f \<Rightarrow> mode f | None \<Rightarrow> create_mode w);
          w1 = w\<lparr>trace := trace w @ [Open_w SSH_KEY_FILE]\<rparr>;
          w2 = w\<lparr>trace := trace w @ [Open_w SSH_KEY_FILE, Write SSH_KEY_FILE k],
                 files := (files w)(SSH_KEY_FILE \<mapsto> \<lparr>content = [], mode = m0\<rparr>)\<rparr>;
          w3 = w\<lparr>trace := trace w @ [Open_w SSH_KEY_FILE, Write SSH_KEY_FILE k,
                                     Chmod SSH_KEY_FILE 384],
                 files := (files w)(SSH_KEY_FILE \<mapsto> \<lparr>content = k, mode = m0\<rparr>)\<rparr>
      in case open_fault w of Some e \<Rightarrow> (Inl e, w1)
         | None \<Rightarrow>
        (case write_fault w of Some e \<Rightarrow> (Inl e, w2)
         | None \<Rightarrow>
        (case chmod_fault w of Some e \<Rightarrow> (Inl e, w3)
         | None \<Rightarrow>
           (Inr SSH_KEY_FILE,
            w3\<lparr>files := (files w)(SSH_KEY_FILE \<mapsto> \<lparr>content = k, mode = 384\<rparr>)\<rparr>))))"
  by (simp add: write_ssh_key_def io_defs fs_defs S_IRUSR_def S_IWUSR_def Let_def
        split: option.splits)

lemma write_ssh_key_not_str:
  "(\<And>s. k \<noteq> JStr s) \<Longrightarrow> write_ssh_key k w = (Inl (no_attribute k (lit ''replace'')), w)"
  by (cases k) (auto simp add: write_ssh_key_def io_defs)

lemma write_ssh_key_returns:
  assumes "write_ssh_key key w = (Inr path, w')"
  shows "\<exists>s. key = JStr s \<and> path = SSH_KEY_FILE \<and>
           open_fault w = None \<and> write_fault w = None \<and> chmod_fault w = None \<and>
           w' = w\<lparr>trace := trace w @
                   [Open_w SSH_KEY_FILE,
                    Write SSH_KEY_FILE
                      (str_strip (str_replace CRLF NEWLINE (str_replace BACKSLASH_N NEWLINE s)) @ NEWLINE),
                    Chmod SSH_KEY_FILE 384],
                 files := (files w)(SSH_KEY_FILE \<mapsto>
                   \<lparr>content = str_strip (str_replace CRLF NEWLINE (str_replace BACKSLASH_N NEWLINE s)) @ NEWLINE,
                    mode = 384\<rparr>)\<rparr>"
proof (cases "\<exists>s. key = JStr s")
  case True
  then obtain s where "key = JStr s" by blast
  with assms show ?thesis
    by (auto simp add: write_ssh_key_JStr Let_def split: option.splits)
next
  case False
  then have "write_ssh_key key w = (Inl (no_attribute key (lit ''replace'')), w)"
    by (intro write_ssh_key_not_str) blast
  with assms show ?thesis by simp
qed

lemma get_inventory_Loaded_not_object:
  "context_file w = Loaded ctx \<Longrightarrow> (\<And>kvs. ctx \<noteq> JObj kvs) \<Longrightarrow>
   get_inventory py_str w = (Inl (no_attribute ctx (lit ''get'')), w)"
  by (cases ctx) (auto simp add: get_inventory_def io_defs py_get_def)

lemma get_inventory_connection_not_object:
  "context_file w = Loaded (JObj ctx) \<Longrightarrow> (\<And>c. connection_of ctx \<noteq> JObj c) \<Longrightarrow>
   get_inventory py_str w = (Inl (no_attribute (connection_of ctx) (lit ''get'')), w)"
  by (cases "connection_of ctx")
     (auto simp add: get_inventory_def io_defs py_get_def connection_of_def)

lemma get_inventory_Loaded_object:
  assumes "context_file w = Loaded (JObj ctx)" and "connection_of ctx = JObj c"
  shows "get_inventory py_str w =
     (case (if truthy (dict_get c (lit ''private_key'') (JStr []))
            then write_ssh_key (dict_get c (lit ''private_key'') (JStr [])) w
            else (Inr SSH_KEY_FILE, w)) of
        (Inl e, w') \<Rightarrow> (Inl e, w')
      | (Inr p, w') \<Rightarrow>
          (Inr (inventory_of (host_name_of py_str ctx) (hostvars_of c)), w'))"
  using assms
  by (simp add: get_inventory_def io_defs py_get_def Let_def connection_of_def host_name_of_def
        hostvars_of_def inventory_of_def lit_def split: prod.splits sum.splits)

lemma write_ssh_key_returns_path:
  "write_ssh_key key w = (Inr path, w') \<Longrightarrow> path = SSH_KEY_FILE"
  using write_ssh_key_returns by blast

lemma get_inventory_returns:
  assumes "context_file w = Loaded (JObj ctx)"
    and "get_inventory py_str w = (Inr inventory, w')"
  shows "\<exists>c. connection_of ctx = JObj c \<and>
             inventory = inventory_of (host_name_of py_str ctx) (hostvars_of c) \<and>
             (if truthy (dict_get c (lit ''private_key'') (JStr []))
              then write_ssh_key (dict_get c (lit ''private_key'') (JStr [])) w
              else (Inr SSH_KEY_FILE, w)) = (Inr SSH_KEY_FILE, w')"
proof (cases "\<exists>c. connection_of ctx = JObj c")
  case True
  then obtain c where c: "connection_of ctx = JObj c" by blast
  define r where "r = (if truthy (dict_get c (lit ''private_key'') (JStr []))
              then write_ssh_key (dict_get c (lit ''private_key'') (JStr [])) w
              else (Inr SSH_KEY_FILE, w))"
  obtain x w1 where x: "r = (x, w1)" by (cases r)
  have gi: "get_inventory py_str w =
      (case r of (Inl e, w') \<Rightarrow> (Inl e, w')
       | (Inr p, w') \<Rightarrow> (Inr (inventory_of (host_name_of py_str ctx) (hostvars_of c)), w'))"
    unfolding r_def by (rule get_inventory_Loaded_object [OF assms(1) c])
  from assms(2) obtain p where p: "x = Inr p" and w1: "w1 = w'"
    and inv: "inventory = inventory_of (host_name_of py_str ctx) (hostvars_of c)"
    unfolding gi x by (cases x) simp_all
  have "p = SSH_KEY_FILE"
  proof (cases "truthy (dict_get c (lit ''private_key'') (JStr []))")
    case True
    with x p have "write_ssh_key (dict_get c (lit ''private_key'') (JStr [])) w = (Inr p, w1)"
      by (simp add: r_def)
    then show ?thesis by (rule write_ssh_key_returns_path)
  next
    case False
    with x p show ?thesis by (simp add: r_def)
  qed
  with x p w1 have "r = (Inr SSH_KEY_FILE, w')" by simp
  with c inv show ?thesis unfolding r_def by blast
next
  case False
  then have "get_inventory py_str w = (Inl (no_attribute (connection_of ctx) (lit ''get'')), w)"
    using assms(1) by (intro get_inventory_connection_not_object) auto
  with assms(2) show ?thesis by simp
qed

lemma map_of_hostvars_of:
  "map_of (hostvars_of c) (lit ''ansible_host'') = Some (dict_get c (lit ''host'') (JStr []))"
  "map_of (hostvars_of c) (lit ''ansible_port'') = Some (dict_get c (lit ''port'') (JInt 22))"
  "map_of (hostvars_of c) (lit ''ansible_user'') = Some (dict_get c (lit ''user'') (JStr (lit ''root'')))"
  "map_of (hostvars_of c) (lit ''ansible_ssh_private_key_file'') = Some (JStr (lit ''/tmp/dockflow_key''))"
  "map_of (hostvars_of c) (lit ''ansible_become_password'') =
     (if truthy (dict_get c (lit ''password'') (JStr []))
      then Some (dict_get c (lit ''password'') (JStr [])) else None)"
  by (simp_all add: hostvars_of_def lit_def)

lemma connection_of_ctx_prod:
  "connection_of ctx_prod =
     JObj [(lit ''host'', JStr (lit ''10.0.0.5'')), (lit ''port'', JInt 2222),
           (lit ''user'', JStr (lit ''deploy'')), (lit ''private_key'', JStr (lit ''KEYDATA''))]"
  by (simp add: connection_of_def ctx_prod_def dict_get_def lit_def)

lemma connection_of_ctx_sudo:
  "connection_of ctx_sudo =
     JObj [(lit ''host'', JStr (lit ''192.168.1.7'')), (lit ''password'', JStr (lit ''secret''))]"
  by (simp add: connection_of_def ctx_sudo_def dict_get_def lit_def)

lemma get_inventory_world_prod:
  "get_inventory py_str world_prod =
     (Inr (JObj [(lit ''all'', JObj [(lit ''hosts'', JArr [JStr (lit ''prod-web1'')]),
                                     (lit ''vars'', JObj [])]),
                 (lit ''_meta'', JObj [(lit ''hostvars'', JObj [(lit ''prod-web1'', JObj
                    [(lit ''ansible_host'', JStr (lit ''10.0.0.5'')),
                     (lit ''ansible_port'', JInt 2222),
                     (lit ''ansible_user'', JStr (lit ''deploy'')),
                     (lit ''ansible_ssh_private_key_file'', JStr (lit ''/tmp/dockflow_key'')),
                     (lit ''ansible_ssh_common_args'',
                      JStr (lit ''-o StrictHostKeyChecking=no -o UserKnownHostsFile=/dev/null''))])])])]),
      world_prod\<lparr>files := [SSH_KEY_FILE \<mapsto> \<lparr>content = lit ''KEYDATA'' @ NEWLINE, mode = 384\<rparr>],
                  trace := [Open_w SSH_KEY_FILE, Write SSH_KEY_FILE (lit ''KEYDATA'' @ NEWLINE),
                            Chmod SSH_KEY_FILE 384]\<rparr>)"
proof -
  have ctx: "context_file world_prod = Loaded (JObj ctx_prod)"
    by (simp add: world_prod_def world0_def)
  have hn: "host_name_of py_str ctx_prod = lit ''prod-web1''"
    by (simp add: host_name_of_def ctx_prod_def dict_get_def format_field_def lit_def)
  show ?thesis
    unfolding get_inventory_Loaded_object [OF ctx connection_of_ctx_prod] hn
    by (simp add: dict_get_def lit_def write_ssh_key_JStr Let_def world_prod_def world0_def
          str_strip_def isspace_def inventory_of_def hostvars_of_def)
qed

lemma get_inventory_world_sudo:
  "get_inventory py_str world_sudo =
     (Inr (JObj [(lit ''all'', JObj [(lit ''hosts'', JArr [JStr (lit ''unknown-server'')]),
                                     (lit ''vars'', JObj [])]),
                 (lit ''_meta'', JObj [(lit ''hostvars'', JObj [(lit ''unknown-server'', JObj
                    [(lit ''ansible_host'', JStr (lit ''192.168.1.7'')),
                     (lit ''ansible_port'', JInt 22),
                     (lit ''ansible_user'', JStr (lit ''root'')),
                     (lit ''ansible_ssh_private_key_file'', JStr (lit ''/tmp/dockflow_key'')),
                     (lit ''ansible_ssh_common_args'',
                      JStr (lit ''-o StrictHostKeyChecking=no -o UserKnownHostsFile=/dev/null'')),
                     (lit ''ansible_become_password'', JStr (lit ''secret''))])])])]),
      world_sudo)"
proof -
  have ctx: "context_file world_sudo = Loaded (JObj ctx_sudo)"
    by (simp add: world_sudo_def world0_def)
  have hn: "host_name_of py_str ctx_sudo = lit ''unknown-server''"
    by (simp add: host_name_of_def ctx_sudo_def dict_get_def format_field_def lit_def)
  show ?thesis
    unfolding get_inventory_Loaded_object [OF ctx connection_of_ctx_sudo] hn
    by (simp add: dict_get_def lit_def inventory_of_def hostvars_of_def)
qed

lemma get_inventory_LoadRaises:
  "context_file w = LoadRaises e \<Longrightarrow>
   get_inventory py_str w =
     (if caught e
      then (Inr empty_inventory,
            w\<lparr>stderr := stderr w @ [lit ''Error reading context file: '' @ message e]\<rparr>)
      else (Inl e, w))"
  by (simp add: get_inventory_def)

lemma get_inventory_Absent:
  "context_file w = Absent \<Longrightarrow> get_inventory py_str w = (Inr empty_inventory, w)"
  by (simp add: get_inventory_def)

lemma get_inventory_returns_iff:
  "(\<exists>inventory w'. get_inventory py_str w = (Inr inventory, w')) \<longleftrightarrow>
     (context_file w = Absent \<or>
      (\<exists>e. context_file w = LoadRaises e \<and> caught e) \<or>
      (\<exists>ctx c. context_file w = Loaded (JObj ctx) \<and> connection_of ctx = JObj c \<and>
          (\<not> truthy (dict_get c (lit ''private_key'') (JStr [])) \<or>
           (\<exists>s. dict_get c (lit ''private_key'') (JStr []) = JStr s) \<and>
           open_fault w = None \<and> write_fault w = None \<and> chmod_fault w = None)))"
  (is "?L \<longleftrightarrow> ?R")
proof
  assume ?L
  then obtain inventory w' where ret: "get_inventory py_str w = (Inr inventory, w')" by blast
  show ?R
  proof (cases "context_file w")
    case Absent
    then show ?thesis by simp
  next
    case (LoadRaises e)
    with ret have "caught e"
      by (auto simp add: get_inventory_LoadRaises split: if_splits)
    with LoadRaises show ?thesis by simp
  next
    case (Loaded v)
    have "\<exists>ctx. v = JObj ctx"
    proof (rule ccontr)
      assume "\<not> ?thesis"
      then have "get_inventory py_str w = (Inl (no_attribute v (lit ''get'')), w)"
        using Loaded by (intro get_inventory_Loaded_not_object) auto
      with ret show False by simp
    qed
    then obtain ctx where v: "v = JObj ctx" by blast
    with Loaded have ctx: "context_file w = Loaded (JObj ctx)" by simp
    from get_inventory_returns [OF ctx ret] obtain c where
      c: "connection_of ctx = JObj c" and
      wr: "(if truthy (dict_get c (lit ''private_key'') (JStr []))
            then write_ssh_key (dict_get c (lit ''private_key'') (JStr [])) w
            else (Inr SSH_KEY_FILE, w)) = (Inr SSH_KEY_FILE, w')"
      by blast
    have "\<not> truthy (dict_get c (lit ''private_key'') (JStr [])) \<or>
           (\<exists>s. dict_get c (lit ''private_key'') (JStr []) = JStr s) \<and>
           open_fault w = None \<and> write_fault w = None \<and> chmod_fault w = None"
    proof (cases "truthy (dict_get c (lit ''private_key'') (JStr []))")
      case True
      with wr have "write_ssh_key (dict_get c (lit ''private_key'') (JStr [])) w =
          (Inr SSH_KEY_FILE, w')" by simp
      from write_ssh_key_returns [OF this] show ?thesis by blast
    next
      case False
      then show ?thesis by simp
    qed
    with ctx c show ?thesis by blast
  qed
next
  assume ?R
  then consider (a) "context_file w = Absent"
    | (b) e where "context_file w = LoadRaises e" "caught e"
    | (c) ctx c where "context_file w = Loaded (JObj ctx)" "connection_of ctx = JObj c"
        "\<not> truthy (dict_get c (lit ''private_key'') (JStr []))"
    | (d) ctx c s where "context_file w = Loaded (JObj ctx)" "connection_of ctx = JObj c"
        "truthy (dict_get c (lit ''private_key'') (JStr []))"
        "dict_get c (lit ''private_key'') (JStr []) = JStr s"
        "open_fault w = None" "write_fault w = None" "chmod_fault w = None"
    by blast
  then show ?L
  proof cases
    case a
    then show ?thesis by (simp add: get_inventory_Absent)
  next
    case b
    then show ?thesis by (simp add: get_inventory_LoadRaises)
  next
    case c
    then show ?thesis by (simp add: get_inventory_Loaded_object)
  next
    case d
    then show ?thesis
      by (simp add: get_inventory_Loaded_object write_ssh_key_JStr Let_def)
  qed
qed

lemma main_raises:
  "get_inventory py_str w = (Inl e, w') \<Longrightarrow> main py_str argv w = (Inl e, w')"
  by (simp add: main_def io_defs)

lemma main_list:
  "get_inventory py_str w = (Inr inventory, w') \<Longrightarrow>
   \<not> (length argv = 3 \<and> argv ! 1 = lit ''--host'') \<Longrightarrow>
   main py_str argv w = (Inr (), w'\<lparr>stdout := stdout w' @ [inventory]\<rparr>)"
  by (auto simp add: main_def io_defs print_json_def)

lemma main_host_empty:
  "get_inventory py_str w = (Inr empty_inventory, w') \<Longrightarrow>
   main py_str [prog, lit ''--host'', name] w = (Inr (), w'\<lparr>stdout := stdout w' @ [JObj []]\<rparr>)"
  by (simp add: main_def io_defs print_json_def py_get_def dict_get_def empty_inventory_def lit_def)

lemma main_host_inventory:
  "get_inventory py_str w = (Inr (inventory_of host_name hostvars), w') \<Longrightarrow>
   main py_str [prog, lit ''--host'', name] w =
     (Inr (), w'\<lparr>stdout := stdout w' @ [if name = host_name then JObj hostvars else JObj []]\<rparr>)"
  by (simp add: main_def io_defs print_json_def py_get_def dict_get_def inventory_of_def lit_def)

lemma get_inventory_shape:
  assumes "get_inventory py_str w = (Inr inventory, w')"
  shows "inventory = empty_inventory \<or>
         (\<exists>ctx c. context_file w = Loaded (JObj ctx) \<and> connection_of ctx = JObj c \<and>
            inventory = inventory_of (host_name_of py_str ctx) (hostvars_of c))"
proof (cases "context_file w")
  case Absent
  with assms show ?thesis by (simp add: get_inventory_Absent)
next
  case (LoadRaises e)
  with assms show ?thesis by (auto simp add: get_inventory_LoadRaises split: if_splits)
next
  case (Loaded v)
  have "\<exists>ctx. v = JObj ctx"
  proof (rule ccontr)
    assume "\<not> ?thesis"
    then have "get_inventory py_str w = (Inl (no_attribute v (lit ''get'')), w)"
      using Loaded by (intro get_inventory_Loaded_not_object) auto
    with assms show False by simp
  qed
  then obtain ctx where ctx: "context_file w = Loaded (JObj ctx)" using Loaded by auto
  from get_inventory_returns [OF ctx assms] ctx show ?thesis by blast
qed

lemma hostvars_prod:
  "hostvars_of [(lit ''host'', JStr (lit ''10.0.0.5'')), (lit ''port'', JInt 2222),
                (lit ''user'', JStr (lit ''deploy'')), (lit ''private_key'', JStr (lit ''KEYDATA''))] =
     [(lit ''ansible_host'', JStr (lit ''10.0.0.5'')),
      (lit ''ansible_port'', JInt 2222),
      (lit ''ansible_user'', JStr (lit ''deploy'')),
      (lit ''ansible_ssh_private_key_file'', JStr (lit ''/tmp/dockflow_key'')),
      (lit ''ansible_ssh_common_args'',
       JStr (lit ''-o StrictHostKeyChecking=no -o UserKnownHostsFile=/dev/null''))]"
  by (simp add: hostvars_of_def dict_get_def lit_def)

lemma main_returns:
  assumes "get_inventory py_str w = (Inr inventory, w')"
  shows "\<exists>w''. main py_str argv w = (Inr (), w'')"
proof (cases "length argv = 3 \<and> argv ! 1 = lit ''--host''")
  case False
  from main_list [OF assms False] show ?thesis by blast
next
  case True
  then obtain prog flag name where argv: "argv = [prog, flag, name]"
    by (cases argv; cases "tl argv"; cases "tl (tl argv)") auto
  with True have flag: "flag = lit ''--host''" by simp
  from get_inventory_shape [OF assms] show ?thesis
  proof
    assume "inventory = empty_inventory"
    with assms main_host_empty [of py_str w w' prog name] show ?thesis
      unfolding argv flag by blast
  next
    assume "\<exists>ctx c. context_file w = Loaded (JObj ctx) \<and> connection_of ctx = JObj c \<and>
            inventory = inventory_of (host_name_of py_str ctx) (hostvars_of c)"
    then obtain ctx c where "inventory = inventory_of (host_name_of py_str ctx) (hostvars_of c)"
      by blast
    with assms main_host_inventory [of py_str w "host_name_of py_str ctx" "hostvars_of c" w' prog name]
    show ?thesis unfolding argv flag by blast
  qed
qed

lemma script_status:
  "fst (script py_str argv w) = (case fst (get_inventory py_str w) of Inl e \<Rightarrow> 1 | Inr i \<Rightarrow> 0)"
proof (cases "get_inventory py_str w")
  case (Pair r w')
  show ?thesis
  proof (cases r)
    case (Inl e)
    with Pair have "main py_str argv w = (Inl e, w')" by (simp add: main_raises)
    with Pair Inl show ?thesis by (simp add: script_def)
  next
    case (Inr inventory)
    with Pair main_returns [of py_str w inventory w' argv]
    obtain w'' where "main py_str argv w = (Inr (), w'')" by blast
    with Pair Inr show ?thesis by (simp add: script_def)
  qed
qed

lemma script_raises:
  "get_inventory py_str w = (Inl e, w') \<Longrightarrow>
   script py_str argv w = (1, w'\<lparr>stderr := stderr w' @ [message e]\<rparr>)"
  by (simp add: script_def main_raises)

lemma get_inventory_key_fault:
  assumes "context_file w = Loaded (JObj ctx)" and "connection_of ctx = JObj c"
    and "dict_get c (lit ''private_key'') (JStr []) = JStr s" and "s \<noteq> []"
    and "open_fault w = Some e \<or> open_fault w = None \<and> write_fault w = Some e \<or>
         open_fault w = None \<and> write_fault w = None \<and> chmod_fault w = Some e"
  shows "fst (get_inventory py_str w) = Inl e"
  using assms(3-5)
  unfolding get_inventory_Loaded_object [OF assms(1,2)]
  by (auto simp add: write_ssh_key_JStr Let_def)

subsection \<open>Strings\<close>

lemma str_strip_last: "str_strip s = [] \<or> \<not> isspace (last (str_strip s))"
proof (cases "dropWhile isspace (rev (dropWhile isspace s))")
  case Nil
  then show ?thesis by (simp add: str_strip_def)
next
  case (Cons a as)
  then have "\<not> isspace a"
    by (metis hd_dropWhile list.sel(1) list.distinct(1))
  with Cons show ?thesis by (simp add: str_strip_def)
qed

lemma str_strip_suffix:
  "dropWhile isspace s = str_strip s @ rev (takeWhile isspace (rev (dropWhile isspace s)))"
  unfolding str_strip_def
  by (metis rev_append rev_rev_ident takeWhile_dropWhile_id)

lemma str_strip_hd: "str_strip s = [] \<or> \<not> isspace (hd (str_strip s))"
proof (cases "str_strip s = []")
  case True
  then show ?thesis by simp
next
  case False
  let ?d = "dropWhile isspace s"
  have "?d \<noteq> []"
  proof
    assume e: "?d = []"
    have "str_strip s = []" unfolding str_strip_def e by simp
    with False show False by simp
  qed
  then have "\<not> isspace (hd ?d)" by (rule hd_dropWhile)
  moreover have "hd ?d = hd (str_strip s)"
    using str_strip_suffix [of s] False by (metis hd_append2)
  ultimately show ?thesis by simp
qed

lemma str_strip_decomp:
  "\<exists>pre post. pre @ str_strip s @ post = s \<and> (\<forall>c \<in> set pre \<union> set post. isspace c)"
proof -
  let ?d = "dropWhile isspace s"
  let ?pre = "takeWhile isspace s"
  let ?post = "rev (takeWhile isspace (rev ?d))"
  have "?pre @ str_strip s @ ?post = s"
    using str_strip_suffix [of s] takeWhile_dropWhile_id [of isspace s] by simp
  moreover have "\<forall>c \<in> set ?pre \<union> set ?post. isspace c"
    by (auto dest: set_takeWhileD)
  ultimately show ?thesis by blast
qed

lemma line_terminator_isspace: "is_line_terminator c \<Longrightarrow> isspace c"
  by (auto simp add: is_line_terminator_def isspace_def)

lemma str_replace_CRLF_delete: "str_replace CRLF NEWLINE s = delete_cr_before_lf s"
proof (induction s rule: delete_cr_before_lf.induct)
  case 1
  then show ?case by simp
next
  case (2 c)
  then show ?case by simp
next
  case (3 c d cs)
  show ?case
  proof (cases "c = CR \<and> d = LF")
    case True
    have "delete_cr_before_lf (c # d # cs) = str_replace CRLF NEWLINE (d # cs)"
      using True 3 by simp
    also have "\<dots> = LF # str_replace CRLF NEWLINE cs" using True by simp
    finally show ?thesis using True by simp
  next
    case False
    then show ?thesis using 3 by auto
  qed
qed

lemma count_delete_cr_before_lf: "count_list (delete_cr_before_lf s) CR = count_lone_cr s"
  by (induction s rule: delete_cr_before_lf.induct) auto

lemma every_cr_before_lf_count: "every_cr_before_lf s \<longleftrightarrow> count_lone_cr s = 0"
  by (induction s rule: every_cr_before_lf.induct) auto

subsection \<open>The context file is missing\<close>

text \<open>
  C4. If the context file does not exist, \<^verbatim>\<open>get_inventory\<close> returns exactly the document
  \<^verbatim>\<open>{"_meta": {"hostvars": {}}}\<close>, with no \<^verbatim>\<open>"all"\<close> key and no host. It is a normal
  return and not an error: nothing is raised, nothing is printed to the error stream and
  no file is touched, the world being the one before the call.
\<close>

theorem get_inventory_no_context_file:
  "context_file w = Absent \<Longrightarrow>
   get_inventory py_str w =
     (Inr (JObj [(lit ''_meta'', JObj [(lit ''hostvars'', JObj [])])]), w)"
  by (simp add: get_inventory_def empty_inventory_def)

theorem get_inventory_no_context_file_witness:
  "context_file world0 = Absent \<and>
   get_inventory py_str_sample world0 =
     (Inr (JObj [(lit ''_meta'', JObj [(lit ''hostvars'', JObj [])])]), world0)"
proof -
  have absent: "context_file world0 = Absent" by (simp add: world0_def)
  from get_inventory_no_context_file [OF absent, of py_str_sample] absent
  show ?thesis by simp
qed

subsection \<open>Writing the key file\<close>

text \<open>
  C2, as the code has it. For every input string, the file \<^verbatim>\<open>write_ssh_key\<close> has written
  when it returns ends with exactly one trailing line feed: the text \<open>t\<close> before it is
  stripped, so it is empty or begins and ends with a character that is no whitespace, and
  so ends in no line terminator. Of the carriage returns of the input, the normalisation
  removes those that are followed at once by a line feed (once the literal backslash-n
  sequences are replaced) and those in the whitespace that \<^verbatim>\<open>strip\<close> drops at the two
  ends, and it keeps every other one: \<open>t\<close>, put back between the whitespace \<open>pre\<close> and
  \<open>post\<close> that \<^verbatim>\<open>strip\<close> dropped, is the input with the backslash-n sequences replaced
  and with exactly the carriage returns that are followed at once by a line feed deleted.
  So the carriage returns of the file, of \<open>pre\<close> and of \<open>post\<close> are together as many as
  the carriage returns of the input that are not followed at once by a line feed. There
  is none of these exactly when every carriage return of the input is followed at once by
  a line feed, and then the file holds no carriage return.
\<close>

theorem key_file_line_endings:
  assumes "write_ssh_key (JStr s) w = (Inr path, w')"
  shows "\<exists>f t pre post.
           files w' SSH_KEY_FILE = Some f \<and> content f = t @ [LF] \<and>
           (t = [] \<or> \<not> isspace (hd t) \<and> \<not> isspace (last t) \<and> \<not> is_line_terminator (last t)) \<and>
           pre @ t @ post = delete_cr_before_lf (str_replace BACKSLASH_N NEWLINE s) \<and>
           (\<forall>c \<in> set pre \<union> set post. isspace c) \<and>
           count_list (content f) CR + count_list pre CR + count_list post CR =
             count_lone_cr (str_replace BACKSLASH_N NEWLINE s) \<and>
           (every_cr_before_lf (str_replace BACKSLASH_N NEWLINE s) \<longleftrightarrow>
              count_lone_cr (str_replace BACKSLASH_N NEWLINE s) = 0) \<and>
           (every_cr_before_lf (str_replace BACKSLASH_N NEWLINE s) \<longrightarrow> CR \<notin> set (content f))"
proof -
  let ?s1 = "str_replace BACKSLASH_N NEWLINE s"
  let ?s2 = "str_replace CRLF NEWLINE ?s1"
  let ?t = "str_strip ?s2"
  from write_ssh_key_returns [OF assms]
  have f: "files w' SSH_KEY_FILE = Some \<lparr>content = ?t @ [LF], mode = 384\<rparr>"
    by auto
  have ends: "?t = [] \<or> \<not> isspace (hd ?t) \<and> \<not> isspace (last ?t) \<and> \<not> is_line_terminator (last ?t)"
    using str_strip_last [of ?s2] str_strip_hd [of ?s2] line_terminator_isspace by blast
  from str_strip_decomp [of ?s2] obtain pre post
    where whole: "pre @ ?t @ post = ?s2" and ws: "\<forall>c \<in> set pre \<union> set post. isspace c"
    by blast
  have whole': "pre @ ?t @ post = delete_cr_before_lf ?s1"
    using whole by (simp only: str_replace_CRLF_delete)
  have "count_list (pre @ ?t @ post) CR = count_lone_cr ?s1"
    unfolding whole' by (rule count_delete_cr_before_lf)
  then have cnt: "count_list (?t @ [LF]) CR + count_list pre CR + count_list post CR = count_lone_cr ?s1"
    by simp
  have zero: "every_cr_before_lf ?s1 \<longleftrightarrow> count_lone_cr ?s1 = 0"
    by (rule every_cr_before_lf_count)
  have cr: "CR \<notin> set (?t @ [LF])" if "every_cr_before_lf ?s1"
  proof -
    from that zero cnt have "count_list (?t @ [LF]) CR = 0" by simp
    then show ?thesis using count_list_0_iff [of "?t @ [LF]" CR] by blast
  qed
  show ?thesis
    apply (rule exI [of _ "\<lparr>content = ?t @ [LF], mode = 384\<rparr>"])
    apply (rule exI [of _ ?t])
    apply (rule exI [of _ pre])
    apply (rule exI [of _ post])
    using f ends whole' ws cnt zero cr by simp
qed

theorem key_file_line_endings_witness:
  "write_ssh_key (JStr (lit '' KEY'' @ CRLF @ lit ''DATA'' @ CRLF)) world0 =
     (Inr SSH_KEY_FILE,
      snd (write_ssh_key (JStr (lit '' KEY'' @ CRLF @ lit ''DATA'' @ CRLF)) world0)) \<and>
   every_cr_before_lf (str_replace BACKSLASH_N NEWLINE (lit '' KEY'' @ CRLF @ lit ''DATA'' @ CRLF)) \<and>
   count_lone_cr (str_replace BACKSLASH_N NEWLINE (lit '' KEY'' @ CRLF @ lit ''DATA'' @ CRLF)) = 0 \<and>
   map_option content
     (files (snd (write_ssh_key (JStr (lit '' KEY'' @ CRLF @ lit ''DATA'' @ CRLF)) world0))
        SSH_KEY_FILE) = Some (lit ''KEY'' @ [LF] @ lit ''DATA'' @ [LF]) \<and>
   CR \<notin> set (lit ''KEY'' @ [LF] @ lit ''DATA'' @ [LF])"
proof -
  let ?k = "lit '' KEY'' @ CRLF @ lit ''DATA'' @ CRLF"
  let ?w = "snd (write_ssh_key (JStr ?k) world0)"
  have ret: "write_ssh_key (JStr ?k) world0 = (Inr SSH_KEY_FILE, ?w)"
    by (simp add: write_ssh_key_JStr world0_def Let_def)
  have paired: "every_cr_before_lf (str_replace BACKSLASH_N NEWLINE ?k)"
    by (simp add: lit_def)
  have written: "map_option content (files ?w SSH_KEY_FILE) =
      Some (lit ''KEY'' @ [LF] @ lit ''DATA'' @ [LF])"
    by (simp add: write_ssh_key_JStr world0_def Let_def lit_def str_strip_def isspace_def)
  from key_file_line_endings [OF ret] obtain f where
    f: "files ?w SSH_KEY_FILE = Some f" and
    zero: "every_cr_before_lf (str_replace BACKSLASH_N NEWLINE ?k) \<longleftrightarrow>
             count_lone_cr (str_replace BACKSLASH_N NEWLINE ?k) = 0" and
    cr: "every_cr_before_lf (str_replace BACKSLASH_N NEWLINE ?k) \<longrightarrow> CR \<notin> set (content f)"
    by (elim exE conjE) (rule that)
  from f written have "content f = lit ''KEY'' @ [LF] @ lit ''DATA'' @ [LF]" by simp
  with cr paired have no_cr: "CR \<notin> set (lit ''KEY'' @ [LF] @ lit ''DATA'' @ [LF])" by simp
  from zero paired have none: "count_lone_cr (str_replace BACKSLASH_N NEWLINE ?k) = 0" by simp
  from ret paired none written no_cr show ?thesis by blast
qed

text \<open>
  The claim as stated, no carriage return anywhere in the file for every input, fails on
  the input \<^verbatim>\<open>'a\r\r\nb'\<close>: the replacement turns the pair into a line feed and keeps
  the carriage return before it, so the file holds \<^verbatim>\<open>'a\r\nb\n'\<close>.
\<close>

theorem lone_carriage_return_is_kept:
  "fst (write_ssh_key (JStr (lit ''a'' @ [CR, CR, LF] @ lit ''b'')) world0) = Inr SSH_KEY_FILE \<and>
   map_option content
     (files (snd (write_ssh_key (JStr (lit ''a'' @ [CR, CR, LF] @ lit ''b'')) world0)) SSH_KEY_FILE)
   = Some (lit ''a'' @ [CR, LF] @ lit ''b'' @ [LF]) \<and>
   CR \<in> set (lit ''a'' @ [CR, LF] @ lit ''b'' @ [LF])"
  by (simp add: write_ssh_key_JStr world0_def Let_def lit_def str_strip_def isspace_def)

text \<open>
  C3, as the code has it. \<^verbatim>\<open>write_ssh_key\<close> normalises its input in this order: every
  literal backslash-n becomes a line feed, then every CRLF becomes a line feed, then the
  whitespace at both ends is stripped, then one line feed is appended. For the input
  \<^verbatim>\<open>line1\<close>, backslash, \<^verbatim>\<open>n\<close>, \<^verbatim>\<open>line2\<close>, carriage return, line feed, the file holds
  exactly \<^verbatim>\<open>'line1\nline2\n'\<close>. A literal backslash-r is not translated: for the input
  \<^verbatim>\<open>line1\<close>, backslash, \<^verbatim>\<open>n\<close>, \<^verbatim>\<open>line2\<close>, backslash, \<^verbatim>\<open>r\<close>, backslash, \<^verbatim>\<open>n\<close> the file
  holds \<^verbatim>\<open>line1\<close>, line feed, \<^verbatim>\<open>line2\<close>, backslash, \<^verbatim>\<open>r\<close>, line feed. The order shows on
  the input \<^verbatim>\<open>a\<close>, carriage return, backslash, \<^verbatim>\<open>n\<close>, \<^verbatim>\<open>b\<close>: the line feed made by
  the first replacement completes a CRLF, which the second one replaces.
\<close>

theorem key_normalisation_order:
  assumes "write_ssh_key (JStr s) w = (Inr path, w')"
  shows "map_option content (files w' SSH_KEY_FILE) =
           Some (str_strip (str_replace CRLF NEWLINE (str_replace BACKSLASH_N NEWLINE s)) @ NEWLINE) \<and>
         (s = lit ''line1'' @ BACKSLASH_N @ lit ''line2'' @ CRLF \<longrightarrow>
            map_option content (files w' SSH_KEY_FILE) =
              Some (lit ''line1'' @ NEWLINE @ lit ''line2'' @ NEWLINE)) \<and>
         (s = lit ''line1'' @ BACKSLASH_N @ lit ''line2'' @ [92, 114] @ BACKSLASH_N \<longrightarrow>
            map_option content (files w' SSH_KEY_FILE) =
              Some (lit ''line1'' @ NEWLINE @ lit ''line2'' @ [92, 114] @ NEWLINE)) \<and>
         (s = lit ''a'' @ [CR] @ BACKSLASH_N @ lit ''b'' \<longrightarrow>
            map_option content (files w' SSH_KEY_FILE) =
              Some (lit ''a'' @ NEWLINE @ lit ''b'' @ NEWLINE))"
proof -
  from write_ssh_key_returns [OF assms]
  have "map_option content (files w' SSH_KEY_FILE) =
          Some (str_strip (str_replace CRLF NEWLINE (str_replace BACKSLASH_N NEWLINE s)) @ NEWLINE)"
    by auto
  then show ?thesis
    by (auto simp add: lit_def str_strip_def isspace_def)
qed

theorem key_normalisation_order_witness:
  "write_ssh_key (JStr (lit ''line1'' @ BACKSLASH_N @ lit ''line2'' @ CRLF)) world0 =
     (Inr SSH_KEY_FILE,
      snd (write_ssh_key (JStr (lit ''line1'' @ BACKSLASH_N @ lit ''line2'' @ CRLF)) world0)) \<and>
   map_option content
     (files (snd (write_ssh_key (JStr (lit ''line1'' @ BACKSLASH_N @ lit ''line2'' @ CRLF)) world0))
        SSH_KEY_FILE) =
     Some (lit ''line1'' @ NEWLINE @ lit ''line2'' @ NEWLINE)"
proof -
  let ?k = "lit ''line1'' @ BACKSLASH_N @ lit ''line2'' @ CRLF"
  have ret: "write_ssh_key (JStr ?k) world0 = (Inr SSH_KEY_FILE, snd (write_ssh_key (JStr ?k) world0))"
    by (simp add: write_ssh_key_JStr world0_def Let_def)
  from key_normalisation_order [OF ret] ret show ?thesis by blast
qed

text \<open>
  The claim's example, read as written (a literal backslash-n, then a literal
  backslash-r and a literal backslash-n), does not give \<^verbatim>\<open>'line1\nline2\n'\<close>: the
  backslash and the \<^verbatim>\<open>r\<close> stay in the file.
\<close>

theorem literal_backslash_r_is_kept:
  "fst (write_ssh_key (JStr (lit ''line1'' @ BACKSLASH_N @ lit ''line2'' @ [92, 114] @ BACKSLASH_N))
          world0) = Inr SSH_KEY_FILE \<and>
   map_option content
     (files (snd (write_ssh_key
                    (JStr (lit ''line1'' @ BACKSLASH_N @ lit ''line2'' @ [92, 114] @ BACKSLASH_N))
                    world0)) SSH_KEY_FILE) =
     Some (lit ''line1'' @ NEWLINE @ lit ''line2'' @ [92, 114] @ NEWLINE) \<and>
   lit ''line1'' @ NEWLINE @ lit ''line2'' @ [92, 114] @ NEWLINE \<noteq>
     lit ''line1'' @ NEWLINE @ lit ''line2'' @ NEWLINE"
  by (simp add: write_ssh_key_JStr world0_def Let_def lit_def str_strip_def isspace_def)

text \<open>
  C9. When \<^verbatim>\<open>write_ssh_key\<close> returns, it returns the path of the key file, and the
  permission bits of that file are owner-read and owner-write only: the mode is
  \<^verbatim>\<open>S_IRUSR | S_IWUSR\<close>, which is 384 (octal 600), and none of the group and other bits
  (octal 077, which is 63) is set. Setting the mode is the last call of the operation and
  comes after the write of the content: the calls made are the open, the write and the
  chmod, in this order.
\<close>

theorem key_file_mode_after_write:
  assumes "write_ssh_key key w = (Inr path, w')"
  shows "path = SSH_KEY_FILE \<and>
         (\<exists>f. files w' SSH_KEY_FILE = Some f \<and>
              mode f = S_IRUSR OR S_IWUSR \<and> mode f = 384 \<and> mode f AND 63 = 0 \<and>
              trace w' = trace w @ [Open_w SSH_KEY_FILE, Write SSH_KEY_FILE (content f),
                                    Chmod SSH_KEY_FILE (S_IRUSR OR S_IWUSR)])"
  using write_ssh_key_returns [OF assms]
  by (auto simp add: S_IRUSR_def S_IWUSR_def)

theorem key_file_mode_after_write_witness:
  "write_ssh_key (JStr (lit ''KEYDATA''))
     (world0\<lparr>files := [SSH_KEY_FILE \<mapsto> \<lparr>content = lit ''old'', mode = 511\<rparr>]\<rparr>) =
     (Inr SSH_KEY_FILE,
      world0\<lparr>files := [SSH_KEY_FILE \<mapsto> \<lparr>content = lit ''KEYDATA'' @ NEWLINE, mode = 384\<rparr>],
             trace := [Open_w SSH_KEY_FILE, Write SSH_KEY_FILE (lit ''KEYDATA'' @ NEWLINE),
                       Chmod SSH_KEY_FILE 384]\<rparr>) \<and>
   (384::nat) AND 63 = 0"
proof -
  let ?w = "world0\<lparr>files := [SSH_KEY_FILE \<mapsto> \<lparr>content = lit ''old'', mode = 511\<rparr>]\<rparr>"
  have ret: "write_ssh_key (JStr (lit ''KEYDATA'')) ?w =
     (Inr SSH_KEY_FILE,
      world0\<lparr>files := [SSH_KEY_FILE \<mapsto> \<lparr>content = lit ''KEYDATA'' @ NEWLINE, mode = 384\<rparr>],
             trace := [Open_w SSH_KEY_FILE, Write SSH_KEY_FILE (lit ''KEYDATA'' @ NEWLINE),
                       Chmod SSH_KEY_FILE 384]\<rparr>)"
    by (simp add: write_ssh_key_JStr world0_def Let_def lit_def str_strip_def isspace_def)
  from key_file_mode_after_write [OF ret] ret show ?thesis by auto
qed

subsection \<open>The inventory of a context object\<close>



text \<open>
  C6. For every context with a connection object on which \<^verbatim>\<open>get_inventory\<close> returns, the
  hostvars record has the key \<^verbatim>\<open>ansible_become_password\<close> exactly when the connection has
  a \<^verbatim>\<open>password\<close> that Python takes as true, which for a string means that it is not
  empty; the value is then that password. With no \<^verbatim>\<open>password\<close> key, or with an empty
  string, the record has no such key.
\<close>

theorem become_password_iff_password:
  assumes "context_file w = Loaded (JObj ctx)"
    and "get_inventory py_str w = (Inr inventory, w')"
  shows "\<exists>c all_part host_name hostvars.
           dict_get ctx (lit ''ssh_connection'') (dict_get ctx (lit ''connection'') (JObj [])) = JObj c \<and>
           inventory =
             JObj [(lit ''all'', all_part),
                   (lit ''_meta'', JObj [(lit ''hostvars'', JObj [(host_name, JObj hostvars)])])] \<and>
           map_of hostvars (lit ''ansible_become_password'') =
             (case map_of c (lit ''password'') of
                None \<Rightarrow> None
              | Some p \<Rightarrow> if truthy p then Some p else None) \<and>
           (map_of c (lit ''password'') = None \<longrightarrow>
              lit ''ansible_become_password'' \<notin> dom (map_of hostvars)) \<and>
           (\<forall>s. map_of c (lit ''password'') = Some (JStr s) \<longrightarrow>
              (lit ''ansible_become_password'' \<in> dom (map_of hostvars)) = (s \<noteq> []) \<and>
              (s \<noteq> [] \<longrightarrow> map_of hostvars (lit ''ansible_become_password'') = Some (JStr s)))"
proof -
  from get_inventory_returns [OF assms] obtain c where
    c: "connection_of ctx = JObj c" and
    inv: "inventory = inventory_of (host_name_of py_str ctx) (hostvars_of c)"
    by blast
  have pw: "map_of (hostvars_of c) (lit ''ansible_become_password'') =
             (case map_of c (lit ''password'') of
                None \<Rightarrow> None
              | Some p \<Rightarrow> if truthy p then Some p else None)"
    by (simp add: map_of_hostvars_of dict_get_def split: option.splits)
  show ?thesis
    apply (rule exI [of _ c])
    apply (rule exI [of _ "JObj [(lit ''hosts'', JArr [JStr (host_name_of py_str ctx)]),
                                 (lit ''vars'', JObj [])]"])
    apply (rule exI [of _ "host_name_of py_str ctx"])
    apply (rule exI [of _ "hostvars_of c"])
    using c inv
    by (auto simp add: pw connection_of_def [symmetric] inventory_of_def dom_def)
qed

theorem become_password_iff_password_witness:
  "context_file world_sudo = Loaded (JObj ctx_sudo) \<and>
   dict_get ctx_sudo (lit ''ssh_connection'') (dict_get ctx_sudo (lit ''connection'') (JObj [])) =
     JObj [(lit ''host'', JStr (lit ''192.168.1.7'')), (lit ''password'', JStr (lit ''secret''))] \<and>
   (\<exists>all_part host_name hostvars.
      fst (get_inventory py_str_sample world_sudo) =
        Inr (JObj [(lit ''all'', all_part),
                   (lit ''_meta'', JObj [(lit ''hostvars'', JObj [(host_name, JObj hostvars)])])]) \<and>
      map_of hostvars (lit ''ansible_become_password'') = Some (JStr (lit ''secret'')))"
proof -
  have ctx: "context_file world_sudo = Loaded (JObj ctx_sudo)"
    by (simp add: world_sudo_def world0_def)
  have ret: "get_inventory py_str_sample world_sudo =
      (Inr (inventory_of (lit ''unknown-server'')
              [(lit ''ansible_host'', JStr (lit ''192.168.1.7'')),
               (lit ''ansible_port'', JInt 22),
               (lit ''ansible_user'', JStr (lit ''root'')),
               (lit ''ansible_ssh_private_key_file'', JStr (lit ''/tmp/dockflow_key'')),
               (lit ''ansible_ssh_common_args'',
                JStr (lit ''-o StrictHostKeyChecking=no -o UserKnownHostsFile=/dev/null'')),
               (lit ''ansible_become_password'', JStr (lit ''secret''))]), world_sudo)"
    by (simp add: get_inventory_world_sudo inventory_of_def)
  have conn: "dict_get ctx_sudo (lit ''ssh_connection'') (dict_get ctx_sudo (lit ''connection'') (JObj [])) =
     JObj [(lit ''host'', JStr (lit ''192.168.1.7'')), (lit ''password'', JStr (lit ''secret''))]"
    using connection_of_ctx_sudo by (simp add: connection_of_def)
  have pw: "map_of [(lit ''host'', JStr (lit ''192.168.1.7'')), (lit ''password'', JStr (lit ''secret''))]
              (lit ''password'') = Some (JStr (lit ''secret''))"
    by (simp add: lit_def)
  from become_password_iff_password [OF ctx ret] obtain c all_part host_name hostvars where
    c: "dict_get ctx_sudo (lit ''ssh_connection'') (dict_get ctx_sudo (lit ''connection'') (JObj [])) = JObj c"
    and inv: "inventory_of (lit ''unknown-server'')
              [(lit ''ansible_host'', JStr (lit ''192.168.1.7'')),
               (lit ''ansible_port'', JInt 22),
               (lit ''ansible_user'', JStr (lit ''root'')),
               (lit ''ansible_ssh_private_key_file'', JStr (lit ''/tmp/dockflow_key'')),
               (lit ''ansible_ssh_common_args'',
                JStr (lit ''-o StrictHostKeyChecking=no -o UserKnownHostsFile=/dev/null'')),
               (lit ''ansible_become_password'', JStr (lit ''secret''))] =
             JObj [(lit ''all'', all_part),
                   (lit ''_meta'', JObj [(lit ''hostvars'', JObj [(host_name, JObj hostvars)])])]"
    and m: "map_of hostvars (lit ''ansible_become_password'') =
             (case map_of c (lit ''password'') of
                None \<Rightarrow> None
              | Some p \<Rightarrow> if truthy p then Some p else None)"
    by blast
  from c conn have "c = [(lit ''host'', JStr (lit ''192.168.1.7'')), (lit ''password'', JStr (lit ''secret''))]"
    by simp
  with m pw have "map_of hostvars (lit ''ansible_become_password'') = Some (JStr (lit ''secret''))"
    by (simp add: lit_def)
  with ctx conn ret inv show ?thesis by auto
qed

text \<open>
  C10. When the connection object of the context has no \<^verbatim>\<open>private_key\<close> field, or has the
  empty string there, \<^verbatim>\<open>get_inventory\<close> returns with the world it was called in: no call
  is made on the key file, whose content and mode, or absence, stay what they were. The
  hostvars record it returns still gives \<^verbatim>\<open>ansible_ssh_private_key_file\<close> the fixed path
  \<^verbatim>\<open>/tmp/dockflow_key\<close>, so the record can name a stale file or one that does not exist.
\<close>

theorem no_private_key_no_write:
  assumes "context_file w = Loaded (JObj ctx)"
    and "dict_get ctx (lit ''ssh_connection'') (dict_get ctx (lit ''connection'') (JObj [])) = JObj c"
    and "map_of c (lit ''private_key'') = None \<or> map_of c (lit ''private_key'') = Some (JStr [])"
  shows "\<exists>all_part host_name hostvars.
           get_inventory py_str w =
             (Inr (JObj [(lit ''all'', all_part),
                         (lit ''_meta'', JObj [(lit ''hostvars'', JObj [(host_name, JObj hostvars)])])]),
              w) \<and>
           map_of hostvars (lit ''ansible_ssh_private_key_file'') = Some (JStr SSH_KEY_FILE) \<and>
           SSH_KEY_FILE = lit ''/tmp/dockflow_key''"
proof -
  have c: "connection_of ctx = JObj c"
    using assms(2) by (simp add: connection_of_def)
  have pk: "\<not> truthy (dict_get c (lit ''private_key'') (JStr []))"
    using assms(3) by (auto simp add: dict_get_def)
  have gi: "get_inventory py_str w =
      (Inr (inventory_of (host_name_of py_str ctx) (hostvars_of c)), w)"
    unfolding get_inventory_Loaded_object [OF assms(1) c] using pk by simp
  show ?thesis
    apply (rule exI [of _ "JObj [(lit ''hosts'', JArr [JStr (host_name_of py_str ctx)]),
                                 (lit ''vars'', JObj [])]"])
    apply (rule exI [of _ "host_name_of py_str ctx"])
    apply (rule exI [of _ "hostvars_of c"])
    using gi by (simp add: map_of_hostvars_of inventory_of_def SSH_KEY_FILE_def)
qed

theorem no_private_key_no_write_witness:
  "context_file world_sudo = Loaded (JObj ctx_sudo) \<and>
   dict_get ctx_sudo (lit ''ssh_connection'') (dict_get ctx_sudo (lit ''connection'') (JObj [])) =
     JObj [(lit ''host'', JStr (lit ''192.168.1.7'')), (lit ''password'', JStr (lit ''secret''))] \<and>
   map_of [(lit ''host'', JStr (lit ''192.168.1.7'')), (lit ''password'', JStr (lit ''secret''))]
     (lit ''private_key'') = None \<and>
   snd (get_inventory py_str_sample world_sudo) = world_sudo \<and>
   files world_sudo SSH_KEY_FILE = None \<and>
   (\<exists>all_part host_name hostvars.
      fst (get_inventory py_str_sample world_sudo) =
        Inr (JObj [(lit ''all'', all_part),
                   (lit ''_meta'', JObj [(lit ''hostvars'', JObj [(host_name, JObj hostvars)])])]) \<and>
      map_of hostvars (lit ''ansible_ssh_private_key_file'') = Some (JStr (lit ''/tmp/dockflow_key'')))"
proof -
  have ctx: "context_file world_sudo = Loaded (JObj ctx_sudo)"
    by (simp add: world_sudo_def world0_def)
  have conn: "dict_get ctx_sudo (lit ''ssh_connection'') (dict_get ctx_sudo (lit ''connection'') (JObj [])) =
     JObj [(lit ''host'', JStr (lit ''192.168.1.7'')), (lit ''password'', JStr (lit ''secret''))]"
    using connection_of_ctx_sudo by (simp add: connection_of_def)
  have nokey: "map_of [(lit ''host'', JStr (lit ''192.168.1.7'')), (lit ''password'', JStr (lit ''secret''))]
     (lit ''private_key'') = None"
    by (simp add: lit_def)
  have nofile: "files world_sudo SSH_KEY_FILE = None"
    by (simp add: world_sudo_def world0_def)
  from no_private_key_no_write [OF ctx conn disjI1 [OF nokey], of py_str_sample]
  obtain all_part host_name hostvars where
    gi: "get_inventory py_str_sample world_sudo =
             (Inr (JObj [(lit ''all'', all_part),
                         (lit ''_meta'', JObj [(lit ''hostvars'', JObj [(host_name, JObj hostvars)])])]),
              world_sudo)"
    and kf: "map_of hostvars (lit ''ansible_ssh_private_key_file'') = Some (JStr SSH_KEY_FILE)"
    and path: "SSH_KEY_FILE = lit ''/tmp/dockflow_key''"
    by blast
  from gi have s: "snd (get_inventory py_str_sample world_sudo) = world_sudo" by simp
  from gi have f: "fst (get_inventory py_str_sample world_sudo) =
        Inr (JObj [(lit ''all'', all_part),
                   (lit ''_meta'', JObj [(lit ''hostvars'', JObj [(host_name, JObj hostvars)])])])"
    by simp
  from kf path have kf': "map_of hostvars (lit ''ansible_ssh_private_key_file'') =
      Some (JStr (lit ''/tmp/dockflow_key''))" by simp
  from ctx conn nokey s nofile f kf' show ?thesis by blast
qed

subsection \<open>What \<^verbatim>\<open>get_inventory\<close> swallows and what it raises\<close>

text \<open>
  C1, as the code has it. \<^verbatim>\<open>get_inventory\<close> does not raise when the context file is
  missing: it returns the empty shape \<^verbatim>\<open>{"_meta": {"hostvars": {}}}\<close>. It does not raise
  when opening or parsing the file raises \<^verbatim>\<open>JSONDecodeError\<close> or \<^verbatim>\<open>IOError\<close>: it prints
  the diagnostic line \<^verbatim>\<open>Error reading context file: ...\<close> to the error stream and returns
  the same empty shape. A file that parses as JSON but not as an object is not covered:
  the \<^verbatim>\<open>AttributeError\<close> of \<^verbatim>\<open>ctx.get\<close> reaches the caller. In all, \<^verbatim>\<open>get_inventory\<close>
  returns exactly when the file is missing, or its load raises one of the two classes
  caught, or it holds an object whose connection is an object and whose private key is
  either false for Python or a string that the three calls on the key file accept.
\<close>

theorem get_inventory_swallows_load_errors:
  "(context_file w = Absent \<longrightarrow>
      get_inventory py_str w =
        (Inr (JObj [(lit ''_meta'', JObj [(lit ''hostvars'', JObj [])])]), w)) \<and>
   (\<forall>m. context_file w = LoadRaises (JSONDecodeError m) \<or> context_file w = LoadRaises (IOError m) \<longrightarrow>
      get_inventory py_str w =
        (Inr (JObj [(lit ''_meta'', JObj [(lit ''hostvars'', JObj [])])]),
         w\<lparr>stderr := stderr w @ [lit ''Error reading context file: '' @ m]\<rparr>)) \<and>
   (\<forall>v. context_file w = Loaded v \<and> (\<forall>kvs. v \<noteq> JObj kvs) \<longrightarrow>
      get_inventory py_str w = (Inl (no_attribute v (lit ''get'')), w)) \<and>
   ((\<exists>inventory w'. get_inventory py_str w = (Inr inventory, w')) \<longleftrightarrow>
      (context_file w = Absent \<or>
       (\<exists>e. context_file w = LoadRaises e \<and> caught e) \<or>
       (\<exists>ctx c. context_file w = Loaded (JObj ctx) \<and> connection_of ctx = JObj c \<and>
          (\<not> truthy (dict_get c (lit ''private_key'') (JStr [])) \<or>
           (\<exists>s. dict_get c (lit ''private_key'') (JStr []) = JStr s) \<and>
           open_fault w = None \<and> write_fault w = None \<and> chmod_fault w = None))))"
proof (intro conjI allI impI)
  assume "context_file w = Absent"
  then show "get_inventory py_str w =
        (Inr (JObj [(lit ''_meta'', JObj [(lit ''hostvars'', JObj [])])]), w)"
    by (simp add: get_inventory_Absent empty_inventory_def)
next
  fix m
  assume "context_file w = LoadRaises (JSONDecodeError m) \<or> context_file w = LoadRaises (IOError m)"
  then show "get_inventory py_str w =
        (Inr (JObj [(lit ''_meta'', JObj [(lit ''hostvars'', JObj [])])]),
         w\<lparr>stderr := stderr w @ [lit ''Error reading context file: '' @ m]\<rparr>)"
    by (auto simp add: get_inventory_LoadRaises empty_inventory_def)
next
  fix v
  assume "context_file w = Loaded v \<and> (\<forall>kvs. v \<noteq> JObj kvs)"
  then show "get_inventory py_str w = (Inl (no_attribute v (lit ''get'')), w)"
    by (intro get_inventory_Loaded_not_object) auto
next
  show "(\<exists>inventory w'. get_inventory py_str w = (Inr inventory, w')) \<longleftrightarrow>
      (context_file w = Absent \<or>
       (\<exists>e. context_file w = LoadRaises e \<and> caught e) \<or>
       (\<exists>ctx c. context_file w = Loaded (JObj ctx) \<and> connection_of ctx = JObj c \<and>
          (\<not> truthy (dict_get c (lit ''private_key'') (JStr [])) \<or>
           (\<exists>s. dict_get c (lit ''private_key'') (JStr []) = JStr s) \<and>
           open_fault w = None \<and> write_fault w = None \<and> chmod_fault w = None)))"
    by (rule get_inventory_returns_iff)
qed

theorem get_inventory_swallows_load_errors_witness:
  "context_file (world0\<lparr>context_file :=
       LoadRaises (JSONDecodeError (lit ''Expecting value: line 1 column 1 (char 0)''))\<rparr>) =
     LoadRaises (JSONDecodeError (lit ''Expecting value: line 1 column 1 (char 0)'')) \<and>
   get_inventory py_str_sample
     (world0\<lparr>context_file :=
        LoadRaises (JSONDecodeError (lit ''Expecting value: line 1 column 1 (char 0)''))\<rparr>) =
     (Inr (JObj [(lit ''_meta'', JObj [(lit ''hostvars'', JObj [])])]),
      world0\<lparr>context_file :=
               LoadRaises (JSONDecodeError (lit ''Expecting value: line 1 column 1 (char 0)'')),
             stderr := [lit ''Error reading context file: Expecting value: line 1 column 1 (char 0)'']\<rparr>)"
proof -
  let ?m = "lit ''Expecting value: line 1 column 1 (char 0)''"
  let ?w = "world0\<lparr>context_file := LoadRaises (JSONDecodeError ?m)\<rparr>"
  have ctx: "context_file ?w = LoadRaises (JSONDecodeError ?m)" by simp
  have err: "stderr ?w = []" by (simp add: world0_def)
  have cat: "lit ''Error reading context file: '' @ ?m =
      lit ''Error reading context file: Expecting value: line 1 column 1 (char 0)''"
    by (simp add: lit_def)
  from get_inventory_swallows_load_errors [of ?w py_str_sample] ctx
  have "get_inventory py_str_sample ?w =
        (Inr (JObj [(lit ''_meta'', JObj [(lit ''hostvars'', JObj [])])]),
         ?w\<lparr>stderr := stderr ?w @ [lit ''Error reading context file: '' @ ?m]\<rparr>)"
    by blast
  then show ?thesis unfolding err cat by (simp add: world0_def)
qed

text \<open>
  The claim as stated, no error for every content of the file, fails on the content
  \<^verbatim>\<open>[]\<close>: it parses as a JSON list, and \<^verbatim>\<open>ctx.get\<close> raises
  \<^verbatim>\<open>AttributeError: 'list' object has no attribute 'get'\<close> outside the \<^verbatim>\<open>try\<close> block.
\<close>

theorem get_inventory_raises_on_json_list:
  "get_inventory py_str_sample (world0\<lparr>context_file := Loaded (JArr [])\<rparr>) =
     (Inl (AttributeError
             (lit [CHR 0x27] @ lit ''list'' @ lit [CHR 0x27] @ lit '' object has no attribute '' @
              lit [CHR 0x27] @ lit ''get'' @ lit [CHR 0x27])),
      world0\<lparr>context_file := Loaded (JArr [])\<rparr>)"
  by (simp add: get_inventory_def io_defs py_get_def no_attribute_def)

subsection \<open>The command line\<close>

text \<open>
  C7. With the arguments \<^verbatim>\<open>--host name\<close> and nothing else, \<^verbatim>\<open>main\<close> prints only the
  hostvars record of that host when \<^verbatim>\<open>name\<close> is the host identifier derived from the
  context, and the empty object \<^verbatim>\<open>{}\<close> when it is another name or when the inventory is
  the empty shape. With \<^verbatim>\<open>--list\<close> and nothing else it prints the full inventory
  document. Every other argument list, the one without arguments too, behaves as
  \<^verbatim>\<open>--list\<close> does. In each case one document is printed, after \<^verbatim>\<open>get_inventory\<close> has
  returned.
\<close>

theorem cli_dispatch:
  "(\<not> (length argv = 3 \<and> argv ! 1 = lit ''--host'') \<longrightarrow>
      main py_str argv w = main py_str [prog, lit ''--list''] w) \<and>
   (\<forall>inventory w'. get_inventory py_str w = (Inr inventory, w') \<longrightarrow>
      main py_str [prog, lit ''--list''] w = (Inr (), w'\<lparr>stdout := stdout w' @ [inventory]\<rparr>) \<and>
      (inventory = JObj [(lit ''_meta'', JObj [(lit ''hostvars'', JObj [])])] \<and>
       main py_str [prog, lit ''--host'', name] w =
         (Inr (), w'\<lparr>stdout := stdout w' @ [JObj []]\<rparr>)
       \<or>
       (\<exists>ctx c. context_file w = Loaded (JObj ctx) \<and> connection_of ctx = JObj c \<and>
          inventory = inventory_of (host_name_of py_str ctx) (hostvars_of c) \<and>
          main py_str [prog, lit ''--host'', name] w =
            (Inr (), w'\<lparr>stdout := stdout w' @
               [if name = host_name_of py_str ctx then JObj (hostvars_of c) else JObj []]\<rparr>))))"
proof (intro conjI allI impI)
  assume other: "\<not> (length argv = 3 \<and> argv ! 1 = lit ''--host'')"
  have l: "\<not> (length [prog, lit ''--list''] = 3 \<and> [prog, lit ''--list''] ! 1 = lit ''--host'')"
    by simp
  obtain r w1 where g: "get_inventory py_str w = (r, w1)" by (cases "get_inventory py_str w")
  show "main py_str argv w = main py_str [prog, lit ''--list''] w"
  proof (cases r)
    case (Inl e)
    with g show ?thesis by (simp add: main_raises)
  next
    case (Inr inventory)
    with g show ?thesis by (simp add: main_list [OF _ other] main_list [OF _ l])
  qed
next
  fix inventory w'
  assume g: "get_inventory py_str w = (Inr inventory, w')"
  show "main py_str [prog, lit ''--list''] w = (Inr (), w'\<lparr>stdout := stdout w' @ [inventory]\<rparr>)"
    by (rule main_list [OF g]) simp
next
  fix inventory w'
  assume g: "get_inventory py_str w = (Inr inventory, w')"
  from get_inventory_shape [OF g]
  show "inventory = JObj [(lit ''_meta'', JObj [(lit ''hostvars'', JObj [])])] \<and>
       main py_str [prog, lit ''--host'', name] w =
         (Inr (), w'\<lparr>stdout := stdout w' @ [JObj []]\<rparr>)
       \<or>
       (\<exists>ctx c. context_file w = Loaded (JObj ctx) \<and> connection_of ctx = JObj c \<and>
          inventory = inventory_of (host_name_of py_str ctx) (hostvars_of c) \<and>
          main py_str [prog, lit ''--host'', name] w =
            (Inr (), w'\<lparr>stdout := stdout w' @
               [if name = host_name_of py_str ctx then JObj (hostvars_of c) else JObj []]\<rparr>))"
  proof
    assume e: "inventory = empty_inventory"
    with g have "main py_str [prog, lit ''--host'', name] w =
         (Inr (), w'\<lparr>stdout := stdout w' @ [JObj []]\<rparr>)"
      by (simp add: main_host_empty)
    with e show ?thesis by (simp add: empty_inventory_def)
  next
    assume "\<exists>ctx c. context_file w = Loaded (JObj ctx) \<and> connection_of ctx = JObj c \<and>
            inventory = inventory_of (host_name_of py_str ctx) (hostvars_of c)"
    then obtain ctx c where ctx: "context_file w = Loaded (JObj ctx)"
      and c: "connection_of ctx = JObj c"
      and inv: "inventory = inventory_of (host_name_of py_str ctx) (hostvars_of c)"
      by blast
    from g inv have "main py_str [prog, lit ''--host'', name] w =
            (Inr (), w'\<lparr>stdout := stdout w' @
               [if name = host_name_of py_str ctx then JObj (hostvars_of c) else JObj []]\<rparr>)"
      by (simp add: main_host_inventory)
    with ctx c inv show ?thesis by blast
  qed
qed

theorem cli_dispatch_witness:
  "\<not> (length [lit ''inventory.py''] = 3 \<and> [lit ''inventory.py''] ! 1 = lit ''--host'') \<and>
   main py_str_sample [lit ''inventory.py''] world_prod =
     main py_str_sample [lit ''inventory.py'', lit ''--list''] world_prod \<and>
   stdout (snd (main py_str_sample [lit ''inventory.py'', lit ''--list''] world_prod)) =
     [inventory_of (lit ''prod-web1'')
        [(lit ''ansible_host'', JStr (lit ''10.0.0.5'')),
         (lit ''ansible_port'', JInt 2222),
         (lit ''ansible_user'', JStr (lit ''deploy'')),
         (lit ''ansible_ssh_private_key_file'', JStr (lit ''/tmp/dockflow_key'')),
         (lit ''ansible_ssh_common_args'',
          JStr (lit ''-o StrictHostKeyChecking=no -o UserKnownHostsFile=/dev/null''))]] \<and>
   stdout (snd (main py_str_sample [lit ''inventory.py'', lit ''--host'', lit ''prod-web1''] world_prod)) =
     [JObj [(lit ''ansible_host'', JStr (lit ''10.0.0.5'')),
            (lit ''ansible_port'', JInt 2222),
            (lit ''ansible_user'', JStr (lit ''deploy'')),
            (lit ''ansible_ssh_private_key_file'', JStr (lit ''/tmp/dockflow_key'')),
            (lit ''ansible_ssh_common_args'',
             JStr (lit ''-o StrictHostKeyChecking=no -o UserKnownHostsFile=/dev/null''))]] \<and>
   stdout (snd (main py_str_sample [lit ''inventory.py'', lit ''--host'', lit ''unknown''] world_prod)) =
     [JObj []]"
proof -
  let ?c = "[(lit ''host'', JStr (lit ''10.0.0.5'')), (lit ''port'', JInt 2222),
             (lit ''user'', JStr (lit ''deploy'')), (lit ''private_key'', JStr (lit ''KEYDATA''))]"
  let ?w' = "world_prod\<lparr>files := [SSH_KEY_FILE \<mapsto> \<lparr>content = lit ''KEYDATA'' @ NEWLINE, mode = 384\<rparr>],
                  trace := [Open_w SSH_KEY_FILE, Write SSH_KEY_FILE (lit ''KEYDATA'' @ NEWLINE),
                            Chmod SSH_KEY_FILE 384]\<rparr>"
  have other: "\<not> (length [lit ''inventory.py''] = 3 \<and> [lit ''inventory.py''] ! 1 = lit ''--host'')"
    by simp
  have g: "get_inventory py_str_sample world_prod =
      (Inr (inventory_of (lit ''prod-web1'') (hostvars_of ?c)), ?w')"
    by (simp add: get_inventory_world_prod hostvars_prod inventory_of_def)
  have out: "stdout ?w' = []" by (simp add: world_prod_def world0_def)
  have d1: "main py_str_sample [lit ''inventory.py''] world_prod =
     main py_str_sample [lit ''inventory.py'', lit ''--list''] world_prod"
    using cli_dispatch [of "[lit ''inventory.py'']" py_str_sample world_prod "lit ''inventory.py''"]
      other by blast
  have d2: "main py_str_sample [lit ''inventory.py'', lit ''--list''] world_prod =
      (Inr (), ?w'\<lparr>stdout := stdout ?w' @ [inventory_of (lit ''prod-web1'') (hostvars_of ?c)]\<rparr>)"
    using cli_dispatch [of "[lit ''inventory.py'']" py_str_sample world_prod "lit ''inventory.py''"] g
    by blast
  have d3: "main py_str_sample [lit ''inventory.py'', lit ''--host'', name] world_prod =
      (Inr (), ?w'\<lparr>stdout := stdout ?w' @
         [if name = lit ''prod-web1'' then JObj (hostvars_of ?c) else JObj []]\<rparr>)" for name
    by (rule main_host_inventory [OF g])
  have n1: "lit ''unknown'' \<noteq> lit ''prod-web1''" by (simp add: lit_def)
  have c3: "stdout (snd (main py_str_sample [lit ''inventory.py'', lit ''--list''] world_prod)) =
     [inventory_of (lit ''prod-web1'') (hostvars_of ?c)]"
    unfolding d2 by (simp add: out)
  have c4: "stdout (snd (main py_str_sample [lit ''inventory.py'', lit ''--host'', lit ''prod-web1''] world_prod)) =
     [JObj (hostvars_of ?c)]"
    unfolding d3 by (simp add: out)
  have c5: "stdout (snd (main py_str_sample [lit ''inventory.py'', lit ''--host'', lit ''unknown''] world_prod)) =
     [JObj []]"
    unfolding d3 using n1 by (simp add: out)
  from other d1 c3 [unfolded hostvars_prod] c4 [unfolded hostvars_prod] c5 show ?thesis by blast
qed

subsection \<open>The exit status\<close>

text \<open>
  C8, as the code has it. When the context holds a non-empty private key string and the
  open, the write or the chmod of the key file fails, the error is not swallowed: it
  leaves \<^verbatim>\<open>write_ssh_key\<close>, \<^verbatim>\<open>get_inventory\<close> and \<^verbatim>\<open>main\<close>, and the process ends with status
  1 after its message on the error stream. The status is 0 or 1, and it is 0 exactly when
  the context file is missing, or its load raises \<^verbatim>\<open>JSONDecodeError\<close> or \<^verbatim>\<open>IOError\<close>, which
  \<^verbatim>\<open>get_inventory\<close> handles, or it holds an object whose connection is an object and whose
  private key is either false for Python or a string that the three calls on the key file
  accept. The key file is therefore not the only failure that is not swallowed: a context
  or a connection that is not an object, a true private key that is not a string and a
  load error of another class end the process with status 1 as well.
\<close>

theorem exit_status_and_key_write_failure:
  "(\<forall>ctx c s e.
      context_file w = Loaded (JObj ctx) \<and> connection_of ctx = JObj c \<and>
      dict_get c (lit ''private_key'') (JStr []) = JStr s \<and> s \<noteq> [] \<and>
      (open_fault w = Some e \<or> open_fault w = None \<and> write_fault w = Some e \<or>
       open_fault w = None \<and> write_fault w = None \<and> chmod_fault w = Some e) \<longrightarrow>
      fst (get_inventory py_str w) = Inl e \<and> fst (main py_str argv w) = Inl e \<and>
      fst (script py_str argv w) = 1 \<and>
      stderr (snd (script py_str argv w)) =
        stderr (snd (get_inventory py_str w)) @ [message e]) \<and>
   (fst (script py_str argv w) = 0 \<or> fst (script py_str argv w) = 1) \<and>
   (fst (script py_str argv w) = 0 \<longleftrightarrow>
      (context_file w = Absent \<or>
       (\<exists>e. context_file w = LoadRaises e \<and> caught e) \<or>
       (\<exists>ctx c. context_file w = Loaded (JObj ctx) \<and> connection_of ctx = JObj c \<and>
          (\<not> truthy (dict_get c (lit ''private_key'') (JStr [])) \<or>
           (\<exists>s. dict_get c (lit ''private_key'') (JStr []) = JStr s) \<and>
           open_fault w = None \<and> write_fault w = None \<and> chmod_fault w = None))))"
proof (intro conjI allI impI)
  fix ctx c s e
  assume h: "context_file w = Loaded (JObj ctx) \<and> connection_of ctx = JObj c \<and>
      dict_get c (lit ''private_key'') (JStr []) = JStr s \<and> s \<noteq> [] \<and>
      (open_fault w = Some e \<or> open_fault w = None \<and> write_fault w = Some e \<or>
       open_fault w = None \<and> write_fault w = None \<and> chmod_fault w = Some e)"
  then have g: "fst (get_inventory py_str w) = Inl e"
    by (intro get_inventory_key_fault [of w ctx c s e]) blast+
  then have g': "get_inventory py_str w = (Inl e, snd (get_inventory py_str w))"
    by (metis prod.collapse)
  show "fst (get_inventory py_str w) = Inl e" by (rule g)
  show "fst (main py_str argv w) = Inl e" by (simp add: main_raises [OF g'])
  show "fst (script py_str argv w) = 1" by (simp add: script_raises [OF g'])
  show "stderr (snd (script py_str argv w)) =
        stderr (snd (get_inventory py_str w)) @ [message e]"
    by (simp add: script_raises [OF g'])
next
  show "fst (script py_str argv w) = 0 \<or> fst (script py_str argv w) = 1"
    by (simp add: script_status split: sum.splits)
next
  have "fst (script py_str argv w) = 0 \<longleftrightarrow>
      (\<exists>inventory w'. get_inventory py_str w = (Inr inventory, w'))"
    by (cases "get_inventory py_str w") (auto simp add: script_status split: sum.splits)
  then show "fst (script py_str argv w) = 0 \<longleftrightarrow>
      (context_file w = Absent \<or>
       (\<exists>e. context_file w = LoadRaises e \<and> caught e) \<or>
       (\<exists>ctx c. context_file w = Loaded (JObj ctx) \<and> connection_of ctx = JObj c \<and>
          (\<not> truthy (dict_get c (lit ''private_key'') (JStr [])) \<or>
           (\<exists>s. dict_get c (lit ''private_key'') (JStr []) = JStr s) \<and>
           open_fault w = None \<and> write_fault w = None \<and> chmod_fault w = None)))"
    by (simp only: get_inventory_returns_iff)
qed

theorem exit_status_and_key_write_failure_witness:
  "context_file (world_prod\<lparr>write_fault := Some (IOError (lit ''[Errno 28] No space left on device''))\<rparr>) =
     Loaded (JObj ctx_prod) \<and>
   connection_of ctx_prod =
     JObj [(lit ''host'', JStr (lit ''10.0.0.5'')), (lit ''port'', JInt 2222),
           (lit ''user'', JStr (lit ''deploy'')), (lit ''private_key'', JStr (lit ''KEYDATA''))] \<and>
   dict_get [(lit ''host'', JStr (lit ''10.0.0.5'')), (lit ''port'', JInt 2222),
             (lit ''user'', JStr (lit ''deploy'')), (lit ''private_key'', JStr (lit ''KEYDATA''))]
     (lit ''private_key'') (JStr []) = JStr (lit ''KEYDATA'') \<and>
   lit ''KEYDATA'' \<noteq> [] \<and>
   open_fault (world_prod\<lparr>write_fault := Some (IOError (lit ''[Errno 28] No space left on device''))\<rparr>) = None \<and>
   write_fault (world_prod\<lparr>write_fault := Some (IOError (lit ''[Errno 28] No space left on device''))\<rparr>) =
     Some (IOError (lit ''[Errno 28] No space left on device'')) \<and>
   fst (main py_str_sample [lit ''inventory.py'', lit ''--list'']
          (world_prod\<lparr>write_fault := Some (IOError (lit ''[Errno 28] No space left on device''))\<rparr>)) =
     Inl (IOError (lit ''[Errno 28] No space left on device'')) \<and>
   fst (script py_str_sample [lit ''inventory.py'', lit ''--list'']
          (world_prod\<lparr>write_fault := Some (IOError (lit ''[Errno 28] No space left on device''))\<rparr>)) = 1"
proof -
  let ?e = "IOError (lit ''[Errno 28] No space left on device'')"
  let ?w = "world_prod\<lparr>write_fault := Some ?e\<rparr>"
  let ?c = "[(lit ''host'', JStr (lit ''10.0.0.5'')), (lit ''port'', JInt 2222),
             (lit ''user'', JStr (lit ''deploy'')), (lit ''private_key'', JStr (lit ''KEYDATA''))]"
  have ctx: "context_file ?w = Loaded (JObj ctx_prod)"
    by (simp add: world_prod_def world0_def)
  have pk: "dict_get ?c (lit ''private_key'') (JStr []) = JStr (lit ''KEYDATA'')"
    by (simp add: dict_get_def lit_def)
  have ne: "lit ''KEYDATA'' \<noteq> []" by (simp add: lit_def)
  have op: "open_fault ?w = None" by (simp add: world_prod_def world0_def)
  have wf: "write_fault ?w = Some ?e" by simp
  have hyp: "context_file ?w = Loaded (JObj ctx_prod) \<and> connection_of ctx_prod = JObj ?c \<and>
      dict_get ?c (lit ''private_key'') (JStr []) = JStr (lit ''KEYDATA'') \<and> lit ''KEYDATA'' \<noteq> [] \<and>
      (open_fault ?w = Some ?e \<or> open_fault ?w = None \<and> write_fault ?w = Some ?e \<or>
       open_fault ?w = None \<and> write_fault ?w = None \<and> chmod_fault ?w = Some ?e)"
    using ctx connection_of_ctx_prod pk ne op wf by blast
  from exit_status_and_key_write_failure
         [of ?w py_str_sample "[lit ''inventory.py'', lit ''--list'']"] hyp
  have "fst (main py_str_sample [lit ''inventory.py'', lit ''--list''] ?w) = Inl ?e \<and>
        fst (script py_str_sample [lit ''inventory.py'', lit ''--list''] ?w) = 1"
    by blast
  with ctx connection_of_ctx_prod pk ne op wf show ?thesis by blast
qed

text \<open>
  The claim as stated, status 0 in every case but a failed write or chmod of the key
  file, fails on the file content \<^verbatim>\<open>null\<close>: \<^verbatim>\<open>ctx.get\<close> raises \<^verbatim>\<open>AttributeError\<close>, the
  status is 1, and no call on the key file has been made.
\<close>

theorem exit_status_nonzero_without_key_write:
  "script py_str_sample [lit ''inventory.py'', lit ''--list'']
     (world0\<lparr>context_file := Loaded JNull\<rparr>) =
     (1, world0\<lparr>context_file := Loaded JNull,
                stderr := [lit [CHR 0x27] @ lit ''NoneType'' @ lit [CHR 0x27] @
                           lit '' object has no attribute '' @
                           lit [CHR 0x27] @ lit ''get'' @ lit [CHR 0x27]]\<rparr>) \<and>
   trace (snd (script py_str_sample [lit ''inventory.py'', lit ''--list'']
                 (world0\<lparr>context_file := Loaded JNull\<rparr>))) = []"
proof -
  have g: "get_inventory py_str_sample (world0\<lparr>context_file := Loaded JNull\<rparr>) =
      (Inl (no_attribute JNull (lit ''get'')), world0\<lparr>context_file := Loaded JNull\<rparr>)"
    by (rule get_inventory_Loaded_not_object) simp_all
  show ?thesis
    unfolding script_raises [OF g]
    by (simp add: no_attribute_def world0_def)
qed

end
